theory Spec2Isabelle
  imports Main "HOL-Library.Word" "HOL-Library.Sublist"
begin

section \<open>JavaScript strings\<close>

text \<open>
  A JavaScript string is a sequence of UTF-16 code units. \<open>length\<close>, \<open>trim\<close>, the
  regular expressions of \<open>auth.js\<close> (none has the \<open>u\<close> flag) and the \<open>maxlength\<close> of a
  textarea all count and inspect code units, so a string is modelled as a list of 16-bit
  words. \<open>js\<close> embeds an ASCII literal of the source.
\<close>

type_synonym code_unit = "16 word"
type_synonym jsstring = "code_unit list"

definition js :: "string \<Rightarrow> jsstring" where
  "js s = map (\<lambda>c. of_nat (of_char c)) s"

text \<open>
  ECMAScript \<open>WhiteSpace\<close> and \<open>LineTerminator\<close>: the code units that
  \<open>String.prototype.trim\<close> strips and that \<open>\s\<close> matches in a regular expression.
\<close>

definition isWhiteSpace :: "code_unit \<Rightarrow> bool" where
  "isWhiteSpace c =
     (c = 0x09 \<or> c = 0x0A \<or> c = 0x0B \<or> c = 0x0C \<or> c = 0x0D \<or> c = 0x20 \<or> c = 0xA0
      \<or> c = 0x1680 \<or> (0x2000 \<le> c \<and> c \<le> 0x200A) \<or> c = 0x2028 \<or> c = 0x2029
      \<or> c = 0x202F \<or> c = 0x205F \<or> c = 0x3000 \<or> c = 0xFEFF)"

text \<open>\<open>String.prototype.trim\<close>: white space is removed from both ends.\<close>

definition trim :: "jsstring \<Rightarrow> jsstring" where
  "trim s = rev (dropWhile isWhiteSpace (rev (dropWhile isWhiteSpace s)))"


section \<open>Content formatter\<close>

subsection \<open>escapeHtml\<close>

text \<open>
  \<^verbatim>\<open>escapeHtml(text) { const div = document.createElement('div');
                     div.textContent = text; return div.innerHTML; }\<close>
  The text becomes one text node and is read back through the HTML fragment
  serialisation, which replaces \<open>&\<close>, U+00A0, \<open><\<close> and \<open>>\<close> in a text node and nothing
  else (quotes are escaped in attribute values only).
\<close>

definition escapeChar :: "code_unit \<Rightarrow> jsstring" where
  "escapeChar c =
     (if c = 0x26 then js ''&amp;''
      else if c = 0xA0 then js ''&nbsp;''
      else if c = 0x3C then js ''&lt;''
      else if c = 0x3E then js ''&gt;''
      else [c])"

definition escapeHtml :: "jsstring \<Rightarrow> jsstring" where
  "escapeHtml text = concat (map escapeChar text)"

subsection \<open>Regular expressions\<close>

text \<open>
  The fragment of ECMAScript regular expressions that \<open>linkifyText\<close> and \<open>extractUrls\<close>
  use: literal text, a negated character class, \<open>?\<close>, \<open>+\<close> and concatenation. Both
  quantifiers are greedy. \<open>rx_match r s\<close> lists, in the order in which the backtracking
  matcher tries them, the remainders of \<open>s\<close> after each way \<open>r\<close> can match at the start of
  \<open>s\<close>; the head of the list is the match the engine reports.
\<close>

datatype cls = WhiteSpaceClass | Chr code_unit

fun in_cls :: "cls \<Rightarrow> code_unit \<Rightarrow> bool" where
  "in_cls WhiteSpaceClass c = isWhiteSpace c"
| "in_cls (Chr d) c = (c = d)"

datatype rx = Lit jsstring | NoneOf "cls list" | Opt rx | Plus rx | Cat rx rx

fun rx_match :: "rx \<Rightarrow> jsstring \<Rightarrow> jsstring list" where
  "rx_match (Lit l) s = (if prefix l s then [drop (length l) s] else [])"
| "rx_match (NoneOf cs) s =
     (case s of [] \<Rightarrow> [] | c # t \<Rightarrow> if list_ex (\<lambda>k. in_cls k c) cs then [] else [t])"
| "rx_match (Opt r) s = rx_match r s @ [s]"
| "rx_match (Cat r1 r2) s = concat (map (rx_match r2) (rx_match r1 s))"
| "rx_match (Plus r) s =
     concat (map (\<lambda>t. (if length t < length s then rx_match (Plus r) t else []) @ [t])
                 (rx_match r s))"

text \<open>
  \<open>rx_exec r s\<close>: one attempt of the matcher at the start of \<open>s\<close>, giving the matched
  text and what follows it.
\<close>

definition rx_exec :: "rx \<Rightarrow> jsstring \<Rightarrow> (jsstring \<times> jsstring) option" where
  "rx_exec r s =
     (case rx_match r s of [] \<Rightarrow> None
      | t # _ \<Rightarrow> Some (take (length s - length t) s, t))"

text \<open>
  \<open>GetSubstitution\<close>, the expansion of a replacement string by
  \<open>String.prototype.replace\<close>: \<open>$$\<close> stands for a dollar sign, \<open>$&\<close> for the matched text,
  \<open>$`\<close> and \<open>$'\<close> for the text before and after the match, \<open>$n\<close> and \<open>$nn\<close> for a
  capture; a two-digit number beyond the number of captures is read as one digit with
  a literal digit behind it, and a reference to no capture stays as it is written.
  No expression of \<open>auth.js\<close> has a named group.
\<close>

definition isDigit :: "code_unit \<Rightarrow> bool" where
  "isDigit c = (0x30 \<le> c \<and> c \<le> 0x39)"

definition digit :: "code_unit \<Rightarrow> nat" where
  "digit c = unat c - 48"

fun getSubstitution ::
  "jsstring \<Rightarrow> jsstring \<Rightarrow> jsstring \<Rightarrow> jsstring list \<Rightarrow> jsstring \<Rightarrow> jsstring" where
  "getSubstitution matched before after captures [] = []"
| "getSubstitution matched before after captures [c] = [c]"
| "getSubstitution matched before after captures (c # d # r) =
     (if c \<noteq> 0x24 then c # getSubstitution matched before after captures (d # r)
      else if d = 0x24 then 0x24 # getSubstitution matched before after captures r
      else if d = 0x26 then matched @ getSubstitution matched before after captures r
      else if d = 0x60 then before @ getSubstitution matched before after captures r
      else if d = 0x27 then after @ getSubstitution matched before after captures r
      else if isDigit d then
        (case r of
           [] \<Rightarrow>
             if 1 \<le> digit d \<and> digit d \<le> length captures
             then captures ! (digit d - 1) @ getSubstitution matched before after captures r
             else 0x24 # d # getSubstitution matched before after captures r
         | e # r' \<Rightarrow>
             if isDigit e \<and> digit d * 10 + digit e \<le> length captures then
               (if 1 \<le> digit d * 10 + digit e
                then captures ! (digit d * 10 + digit e - 1)
                     @ getSubstitution matched before after captures r'
                else 0x24 # d # e # getSubstitution matched before after captures r')
             else if 1 \<le> digit d \<and> digit d \<le> length captures
             then captures ! (digit d - 1) @ getSubstitution matched before after captures r
             else 0x24 # d # getSubstitution matched before after captures r)
      else 0x24 # getSubstitution matched before after captures (d # r))"

text \<open>
  \<open>String.prototype.replace\<close> with a global regular expression and a replacement
  string, and \<open>String.prototype.match\<close> with a global regular expression: the string is
  scanned from the left, a match is replaced (collected) and the scan goes on behind
  it, a position without a match is copied (skipped). After an empty match the scan
  advances by one code unit. \<open>before\<close> is the part of the string that the scan has
  passed. The expressions of \<open>auth.js\<close> that are used so have one capture group, around
  the whole expression, so the captures are the match alone.
\<close>

function replace_global :: "rx \<Rightarrow> jsstring \<Rightarrow> jsstring \<Rightarrow> jsstring \<Rightarrow> jsstring" where
  "replace_global r replaceValue before s =
     (case rx_exec r s of
        None \<Rightarrow>
          (case s of [] \<Rightarrow> []
           | c # cs \<Rightarrow> c # replace_global r replaceValue (before @ [c]) cs)
      | Some (m, t) \<Rightarrow>
          if length t < length s then
            getSubstitution m before t [m] replaceValue
            @ replace_global r replaceValue (before @ m) t
          else
            getSubstitution m before t [m] replaceValue
            @ (case s of [] \<Rightarrow> []
               | c # cs \<Rightarrow> c # replace_global r replaceValue (before @ [c]) cs))"
  by pat_completeness auto
termination
  by (relation "measure (\<lambda>(r, v, b, s). length s)") auto

function match_global :: "rx \<Rightarrow> jsstring \<Rightarrow> jsstring list" where
  "match_global r s =
     (case rx_exec r s of
        None \<Rightarrow> (case s of [] \<Rightarrow> [] | c # cs \<Rightarrow> match_global r cs)
      | Some (m, t) \<Rightarrow>
          if length t < length s then m # match_global r t
          else m # (case s of [] \<Rightarrow> [] | c # cs \<Rightarrow> match_global r cs))"
  by pat_completeness auto
termination
  by (relation "measure (\<lambda>(r, s). length s)") auto

subsection \<open>linkifyText and extractUrls\<close>

text \<open>
  \<^verbatim>\<open>/(https?:\/\/[^\s<>"']+[^\s<>"'.,!?;:])/g\<close>
  The only capture group spans the whole expression.
\<close>

definition urlChars :: "cls list" where
  "urlChars = [WhiteSpaceClass, Chr 0x3C, Chr 0x3E, Chr 0x22, Chr 0x27]"

definition urlLast :: "cls list" where
  "urlLast = [WhiteSpaceClass, Chr 0x3C, Chr 0x3E, Chr 0x22, Chr 0x27,
              Chr 0x2E, Chr 0x2C, Chr 0x21, Chr 0x3F, Chr 0x3B, Chr 0x3A]"

definition urlRegex :: rx where
  "urlRegex =
     Cat (Lit (js ''http'')) (Cat (Opt (Lit (js ''s''))) (Cat (Lit (js ''://''))
       (Cat (Plus (NoneOf urlChars)) (NoneOf urlLast))))"

definition linkifyText :: "jsstring \<Rightarrow> jsstring" where
  \<open>linkifyText text =
     replace_global urlRegex
       (js ''<a href="$1" target="_blank" rel="noopener noreferrer" class="text-custom-blue underline hover:opacity-80 font-medium">$1</a>'')
       [] text\<close>

definition extractUrls :: "jsstring \<Rightarrow> jsstring list" where
  "extractUrls text = match_global urlRegex text"


section \<open>Data model\<close>

text \<open>
  The identity provider's user object, as far as \<open>auth.js\<close> reads it, and a JavaScript
  \<open>Error\<close>: its message and, for an error raised by the provider, its \<open>code\<close>.
  \<open>new Error(m)\<close> has no code.
\<close>

record user =
  uid :: jsstring
  email :: jsstring
  emailVerified :: bool

datatype js_error = Error (message: jsstring) (code: "jsstring option")

text \<open>
  A timestamp field holds the \<open>serverTimestamp()\<close> sentinel until the server has set it
  (a snapshot shows such a field as \<open>null\<close>), and a time afterwards.
\<close>

datatype time_value = ServerTimestamp | Timestamp int

text \<open>
  The object literals \<open>postData\<close> and \<open>categoryData\<close>, and the same objects with the
  identifier that the provider assigns (\<open>{ id: docRef.id, ...postData }\<close> and
  \<open>{ id: doc.id, ...doc.data() }\<close>).
\<close>

record post_data =
  content :: jsstring
  category :: jsstring
  userId :: jsstring
  userEmail :: jsstring
  createdAt :: time_value
  updatedAt :: time_value

record post_doc = post_data +
  post_id :: jsstring

record category_data =
  name :: jsstring
  createdBy :: jsstring
  category_createdAt :: time_value

record category_doc = category_data +
  category_id :: jsstring

datatype field = Str jsstring | Time time_value

datatype direction = Asc | Desc

record query =
  collection :: string
  whereCategory :: "jsstring option"
  orderByField :: string
  orderByDirection :: direction
  limitCount :: "nat option"

text \<open>The calls that \<open>auth.js\<close> makes to the provider's SDK, with their arguments.\<close>

datatype call =
    CreateUserWithEmailAndPassword jsstring jsstring
  | SignInWithEmailAndPassword jsstring jsstring
  | SignOut
  | SetDoc string jsstring "(string \<times> field) list" bool
  | AddDoc_posts post_data
  | AddDoc_categories category_data
  | OnSnapshot query nat
  | Unsubscribe nat

datatype page = LoadingPage | LoginPage | SignupPage | DashboardPage

text \<open>
  The state of the page: the fields of \<open>FirebaseAuthManager\<close> and of \<open>PageRenderer\<close>,
  the provider calls issued so far, the lines written with \<open>console.error\<close>, and the
  part of the document that the script reads or writes after rendering. \<open>page\<close> says
  which template \<open>container.innerHTML\<close> holds; the elements of the dashboard exist
  while it is \<open>DashboardPage\<close>. \<open>postError\<close> and \<open>postSuccess\<close> are \<open>None\<close> while the
  element is hidden. Class names, the character counter and the label of the submit
  button are presentation only and are left out.
\<close>

record app =
  currentUser :: "user option"
  calls :: "call list"
  console :: "(jsstring \<times> js_error) list"
  selectedCategory :: jsstring
  categories :: "category_doc list"
  postsUnsubscribe :: "nat option"
  categoriesUnsubscribe :: "nat option"
  page :: page
  postsContainer :: jsstring
  categoriesList :: jsstring
  postLabel :: jsstring
  postContent :: jsstring
  postError :: "jsstring option"
  postSuccess :: "jsstring option"

definition console_error :: "string \<Rightarrow> js_error \<Rightarrow> app \<Rightarrow> app" where
  "console_error label error a = a\<lparr>console := console a @ [(js label, error)]\<rparr>"

definition issue :: "call \<Rightarrow> app \<Rightarrow> app" where
  "issue c a = a\<lparr>calls := calls a @ [c]\<rparr>"


section \<open>Auth/Data gateway: FirebaseAuthManager\<close>

text \<open>
  The provider is outside the program. What it answers to a call is an argument of the
  function that makes the call: \<open>Inl\<close> the error with which the promise is rejected,
  \<open>Inr\<close> the value with which it is fulfilled. An \<open>async\<close> function returns \<open>Inl\<close> the
  error it throws or \<open>Inr\<close> its result, together with the state it leaves.
  \<open>window.doc\<close>, \<open>window.collection\<close> and \<open>window.serverTimestamp\<close> build values and
  make no call.
\<close>

definition handleFirebaseError :: "js_error \<Rightarrow> js_error" where
  "handleFirebaseError error =
     (if code error = Some (js ''auth/email-already-in-use'') then
        Error (js ''An account with this email already exists'') None
      else if code error = Some (js ''auth/invalid-email'') then
        Error (js ''Please enter a valid email address'') None
      else if code error = Some (js ''auth/operation-not-allowed'') then
        Error (js ''Email/password accounts are not enabled'') None
      else if code error = Some (js ''auth/weak-password'') then
        Error (js ''Password should be at least 6 characters'') None
      else if code error = Some (js ''auth/user-disabled'') then
        Error (js ''This account has been disabled'') None
      else if code error = Some (js ''auth/user-not-found'') then
        Error (js ''No account found with this email'') None
      else if code error = Some (js ''auth/wrong-password'') then
        Error (js ''Incorrect password'') None
      else if code error = Some (js ''auth/invalid-credential'') then
        Error (js ''Invalid email or password'') None
      else if code error = Some (js ''auth/too-many-requests'') then
        Error (js ''Too many failed attempts. Please try again later'') None
      else Error (js ''Authentication failed. Please try again'') None)"

definition createUserProfile ::
  "(js_error + unit) \<Rightarrow> jsstring \<Rightarrow> (string \<times> field) list \<Rightarrow> app \<Rightarrow> (js_error + unit) \<times> app" where
  "createUserProfile written uid' profileData a =
     (case written of
        Inr _ \<Rightarrow> (Inr (), issue (SetDoc ''users'' uid' profileData False) a)
      | Inl error \<Rightarrow>
          (Inl (Error (js ''Failed to create user profile'') None),
           console_error ''Error creating user profile:'' error
             (issue (SetDoc ''users'' uid' profileData False) a)))"

definition updateUserProfile ::
  "(js_error + unit) \<Rightarrow> jsstring \<Rightarrow> (string \<times> field) list \<Rightarrow> app \<Rightarrow> app" where
  "updateUserProfile written uid' updates a =
     (case written of
        Inr _ \<Rightarrow> issue (SetDoc ''users'' uid' updates True) a
      | Inl error \<Rightarrow>
          console_error ''Error updating user profile:'' error
            (issue (SetDoc ''users'' uid' updates True) a))"

definition registerUser ::
  "(js_error + user) \<Rightarrow> (js_error + unit) \<Rightarrow> jsstring \<Rightarrow> jsstring \<Rightarrow> app \<Rightarrow> (js_error + user) \<times> app" where
  "registerUser created written email' password a =
     (case created of
        Inl error \<Rightarrow>
          (Inl (handleFirebaseError error),
           issue (CreateUserWithEmailAndPassword email' password) a)
      | Inr user \<Rightarrow>
          (case createUserProfile written (uid user)
                  [(''email'', Str email'),
                   (''createdAt'', Time ServerTimestamp),
                   (''lastLogin'', Time ServerTimestamp)]
                  (issue (CreateUserWithEmailAndPassword email' password) a) of
             (Inl error, a') \<Rightarrow> (Inl (handleFirebaseError error), a')
           | (Inr _, a') \<Rightarrow> (Inr user, a')))"

definition authenticateUser ::
  "(js_error + user) \<Rightarrow> (js_error + unit) \<Rightarrow> jsstring \<Rightarrow> jsstring \<Rightarrow> app \<Rightarrow> (js_error + user) \<times> app" where
  "authenticateUser signedIn written email' password a =
     (case signedIn of
        Inl error \<Rightarrow>
          (Inl (handleFirebaseError error),
           issue (SignInWithEmailAndPassword email' password) a)
      | Inr user \<Rightarrow>
          (Inr user,
           updateUserProfile written (uid user) [(''lastLogin'', Time ServerTimestamp)]
             (issue (SignInWithEmailAndPassword email' password) a)))"

definition logout :: "(js_error + unit) \<Rightarrow> app \<Rightarrow> (js_error + unit) \<times> app" where
  "logout signedOut a =
     (case signedOut of
        Inr _ \<Rightarrow> (Inr (), issue SignOut a)
      | Inl error \<Rightarrow>
          (Inl (Error (js ''Failed to sign out'') None),
           console_error ''Error signing out:'' error (issue SignOut a)))"

text \<open>
  \<open>createPost(content, category = 'General')\<close>: the second argument is \<open>None\<close> when the
  caller leaves it out. \<open>added\<close> is the provider's answer to \<open>addDoc\<close>: the identifier
  of the new document.
\<close>

definition createPost ::
  "(js_error + jsstring) \<Rightarrow> jsstring \<Rightarrow> jsstring option \<Rightarrow> app \<Rightarrow> (js_error + post_doc) \<times> app" where
  "createPost added content' category' a =
     (case currentUser a of
        None \<Rightarrow> (Inl (Error (js ''User must be authenticated to create posts'') None), a)
      | Some user \<Rightarrow>
          if content' = [] \<or> length (trim content') = 0 then
            (Inl (Error (js ''Post content cannot be empty'') None), a)
          else
            let postData = \<lparr> content = trim content',
                             category = (case category' of None \<Rightarrow> js ''General'' | Some c \<Rightarrow> c),
                             userId = uid user,
                             userEmail = email user,
                             createdAt = ServerTimestamp,
                             updatedAt = ServerTimestamp \<rparr>
            in (case added of
                  Inr docRef_id \<Rightarrow>
                    (Inr (post_data.extend postData (post_doc.fields docRef_id)),
                     issue (AddDoc_posts postData) a)
                | Inl error \<Rightarrow>
                    (Inl (Error (js ''Failed to create post'') None),
                     console_error ''Error creating post:'' error
                       (issue (AddDoc_posts postData) a))))"

definition createCategory ::
  "(js_error + jsstring) \<Rightarrow> jsstring \<Rightarrow> app \<Rightarrow> (js_error + category_doc) \<times> app" where
  "createCategory added categoryName a =
     (case currentUser a of
        None \<Rightarrow> (Inl (Error (js ''User must be authenticated to create categories'') None), a)
      | Some user \<Rightarrow>
          if categoryName = [] \<or> length (trim categoryName) = 0 then
            (Inl (Error (js ''Category name cannot be empty'') None), a)
          else
            let categoryData = \<lparr> name = trim categoryName,
                                 createdBy = uid user,
                                 category_createdAt = ServerTimestamp \<rparr>
            in (case added of
                  Inr docRef_id \<Rightarrow>
                    (Inr (category_data.extend categoryData (category_doc.fields docRef_id)),
                     issue (AddDoc_categories categoryData) a)
                | Inl error \<Rightarrow>
                    (Inl (Error (js ''Failed to create category'') None),
                     console_error ''Error creating category:'' error
                       (issue (AddDoc_categories categoryData) a))))"


section \<open>Live subscriptions\<close>

text \<open>
  \<open>window.onSnapshot(query, next, error)\<close> registers a listener with the provider and
  returns the function that releases it. A listener is the query with the two
  handlers; the handlers of \<open>auth.js\<close> change the page and nothing else. The table of
  registered listeners is the provider's, so it stands beside the state of the page.
  A handle is the number under which the listener is registered;
  \<open>postsUnsubscribe\<close> and \<open>categoriesUnsubscribe\<close> hold the handle whose listener
  their function releases. \<open>sdkFault\<close> is the exception, if any, that the SDK throws
  while a query is built or registered.
\<close>

datatype listener =
    PostsListener query
      "post_doc list \<Rightarrow> app \<Rightarrow> (js_error + unit) \<times> app"
      "js_error \<Rightarrow> app \<Rightarrow> (js_error + unit) \<times> app"
  | CategoriesListener query
      "category_doc list \<Rightarrow> app \<Rightarrow> (js_error + unit) \<times> app"
      "js_error \<Rightarrow> app \<Rightarrow> (js_error + unit) \<times> app"

fun listener_query :: "listener \<Rightarrow> query" where
  "listener_query (PostsListener q _ _) = q"
| "listener_query (CategoriesListener q _ _) = q"

record world =
  st :: app
  listeners :: "nat \<rightharpoonup> listener"
  nextHandle :: nat
  sdkFault :: "js_error option"

definition onSnapshot :: "listener \<Rightarrow> world \<Rightarrow> nat \<times> world" where
  "onSnapshot l w =
     (nextHandle w,
      w\<lparr> st := issue (OnSnapshot (listener_query l) (nextHandle w)) (st w),
         listeners := (listeners w)(nextHandle w \<mapsto> l),
         nextHandle := Suc (nextHandle w) \<rparr>)"

definition unsubscribe :: "nat \<Rightarrow> world \<Rightarrow> world" where
  "unsubscribe h w =
     w\<lparr> st := issue (Unsubscribe h) (st w),
        listeners := (listeners w)(h := None) \<rparr>"

text \<open>
  \<open>subscribeToPosts(callback, category = null, limitCount = 50)\<close> and
  \<open>subscribeToCategories(callback)\<close>.
\<close>

definition subscribeToPosts ::
  "(post_doc list \<Rightarrow> app \<Rightarrow> (js_error + unit) \<times> app) \<Rightarrow> jsstring option \<Rightarrow> nat \<Rightarrow> world
     \<Rightarrow> (js_error + nat) \<times> world" where
  "subscribeToPosts callback category' limitCount' w =
     (if currentUser (st w) = None then
        (Inl (Error (js ''User must be authenticated to view posts'') None), w)
      else case sdkFault w of
        Some error \<Rightarrow>
          (Inl (Error (js ''Failed to subscribe to posts'') None),
           w\<lparr>st := console_error ''Error subscribing to posts:'' error (st w)\<rparr>)
      | None \<Rightarrow>
          let postsQuery =
                (if category' \<noteq> None \<and> category' \<noteq> Some [] \<and> category' \<noteq> Some (js ''All'') then
                   \<lparr> collection = ''posts'', whereCategory = category',
                     orderByField = ''createdAt'', orderByDirection = Desc,
                     limitCount = Some limitCount' \<rparr>
                 else
                   \<lparr> collection = ''posts'', whereCategory = None,
                     orderByField = ''createdAt'', orderByDirection = Desc,
                     limitCount = Some limitCount' \<rparr>);
              (h, w') = onSnapshot
                (PostsListener postsQuery
                   (\<lambda>snapshot. callback snapshot)
                   (\<lambda>error a. callback [] (console_error ''Error listening to posts:'' error a)))
                w
          in (Inr h, w'))"

definition subscribeToCategories ::
  "(category_doc list \<Rightarrow> app \<Rightarrow> (js_error + unit) \<times> app) \<Rightarrow> world \<Rightarrow> (js_error + nat) \<times> world" where
  "subscribeToCategories callback w =
     (if currentUser (st w) = None then
        (Inl (Error (js ''User must be authenticated to view categories'') None), w)
      else case sdkFault w of
        Some error \<Rightarrow>
          (Inl (Error (js ''Failed to subscribe to categories'') None),
           w\<lparr>st := console_error ''Error subscribing to categories:'' error (st w)\<rparr>)
      | None \<Rightarrow>
          let categoriesQuery =
                \<lparr> collection = ''categories'', whereCategory = None,
                  orderByField = ''createdAt'', orderByDirection = Asc,
                  limitCount = None \<rparr>;
              (h, w') = onSnapshot
                (CategoriesListener categoriesQuery
                   (\<lambda>snapshot. callback snapshot)
                   (\<lambda>error a. callback [] (console_error ''Error listening to categories:'' error a)))
                w
          in (Inr h, w'))"

text \<open>
  What the provider does with a registered listener: it reports a new result set of the
  query, or an error of the query. A handle that is not registered any more gets
  nothing. The result is the exception, if any, that leaves the handler.
\<close>

definition snapshot_posts :: "nat \<Rightarrow> post_doc list \<Rightarrow> world \<Rightarrow> (js_error + unit) \<times> world" where
  "snapshot_posts h docs w =
     (case listeners w h of
        Some (PostsListener q next' err) \<Rightarrow> (case next' docs (st w) of (r, a) \<Rightarrow> (r, w\<lparr>st := a\<rparr>))
      | _ \<Rightarrow> (Inr (), w))"

definition snapshot_categories ::
  "nat \<Rightarrow> category_doc list \<Rightarrow> world \<Rightarrow> (js_error + unit) \<times> world" where
  "snapshot_categories h docs w =
     (case listeners w h of
        Some (CategoriesListener q next' err) \<Rightarrow> (case next' docs (st w) of (r, a) \<Rightarrow> (r, w\<lparr>st := a\<rparr>))
      | _ \<Rightarrow> (Inr (), w))"

definition query_error :: "nat \<Rightarrow> js_error \<Rightarrow> world \<Rightarrow> (js_error + unit) \<times> world" where
  "query_error h error w =
     (case listeners w h of
        Some (PostsListener q next' err) \<Rightarrow> (case err error (st w) of (r, a) \<Rightarrow> (r, w\<lparr>st := a\<rparr>))
      | Some (CategoriesListener q next' err) \<Rightarrow> (case err error (st w) of (r, a) \<Rightarrow> (r, w\<lparr>st := a\<rparr>))
      | None \<Rightarrow> (Inr (), w))"


section \<open>View controller: PageRenderer\<close>

text \<open>
  A template literal of the source is written line by line: \<open>jsl\<close> joins the lines with
  the line feed that separates them in \<open>auth.js\<close>.
\<close>

fun jsl :: "string list \<Rightarrow> jsstring" where
  "jsl [] = []"
| "jsl [l] = js l"
| "jsl (l # ls) = js l @ 0x0A # jsl ls"

text \<open>
  \<open>getTimeAgo\<close> reads the clock and formats a date in the browser's locale, and
  \<open>generateLinkPreview\<close> goes through the browser's URL parser and case mapping. Both
  are arguments of the renderer: \<open>getTimeAgo env t\<close> is the text shown for a post
  created at \<open>t\<close>, \<open>generateLinkPreview env url\<close> the card shown for \<open>url\<close>.
  \<open>document.querySelector\<close> throws a \<open>SyntaxError\<close> when its argument is not a
  selector; which strings are selectors is decided by the browser's CSS parser, and
  \<open>querySelectorAccepts env\<close> is that decision.
\<close>

record platform =
  getTimeAgo :: "time_value \<Rightarrow> jsstring"
  generateLinkPreview :: "jsstring \<Rightarrow> jsstring"
  querySelectorAccepts :: "jsstring \<Rightarrow> bool"

subsection \<open>renderPosts and renderCategories\<close>

definition noPostsHtml :: jsstring where
  \<open>noPostsHtml =
     jsl ['''',
          ''                <div class="text-center text-custom-black py-8">'',
          ''                    <div class="w-12 h-12 bg-custom-blue mx-auto mb-4 flex items-center justify-center">'',
          ''                        <div class="w-6 h-6 bg-custom-white"></div>'',
          ''                    </div>'',
          ''                    <p>No posts yet. Be the first to share something!</p>'',
          ''                </div>'',
          ''            '']\<close>

definition postHtml :: "platform \<Rightarrow> post_doc \<Rightarrow> jsstring" where
  \<open>postHtml env post =
     (let timeAgo = getTimeAgo env (createdAt post);
          categoryName = (if category post = [] then js ''General'' else category post);
          escapedContent = escapeHtml (content post);
          linkedContent = linkifyText escapedContent;
          urls = extractUrls (content post);
          linkPreviews = concat (map (generateLinkPreview env) urls)
      in jsl ['''',
              ''                <div class="border border-custom-grey p-5 bg-custom-white hover:opacity-80 transition-opacity">'',
              ''                    <div class="flex justify-between items-start mb-3">'',
              ''                        <div class="flex items-center space-x-3">'',
              ''                            <span class="text-xs px-2 py-1 bg-custom-blue text-custom-white">'']
       @ categoryName
       @ jsl [''</span>'',
              ''                        </div>'',
              ''                        <div class="text-xs text-custom-black">'']
       @ timeAgo
       @ jsl [''</div>'',
              ''                    </div>'',
              ''                    <div class="text-sm text-custom-black whitespace-pre-wrap leading-relaxed">'']
       @ linkedContent
       @ jsl [''</div>'',
              ''                    '']
       @ linkPreviews
       @ jsl ['''',
              ''                </div>'',
              ''            ''])\<close>

text \<open>
  \<open>document.getElementById('posts-container')\<close> is \<open>null\<close> unless the dashboard is
  shown, and the assignment to \<open>innerHTML\<close> of \<open>null\<close> throws a \<open>TypeError\<close> (its
  message is the engine's).
\<close>

definition TypeError :: js_error where
  "TypeError = Error (js ''Cannot set properties of null'') None"

definition renderPosts :: "platform \<Rightarrow> post_doc list \<Rightarrow> app \<Rightarrow> (js_error + unit) \<times> app" where
  "renderPosts env posts a =
     (if page a \<noteq> DashboardPage then (Inl TypeError, a)
      else if posts = [] then (Inr (), a\<lparr>postsContainer := noPostsHtml\<rparr>)
      else (Inr (), a\<lparr>postsContainer := concat (map (postHtml env) posts)\<rparr>))"

definition categoryHtml :: "category_doc \<Rightarrow> jsstring" where
  \<open>categoryHtml c =
     jsl ['''',
          ''            <button '',
          ''                class="category-btn w-full text-left px-3 py-2 text-sm text-custom-black border border-custom-grey bg-custom-white hover:opacity-80 transition-opacity"'',
          ''                data-category="'']
   @ name c
   @ jsl [''"'',
          ''            >'',
          ''                '']
   @ name c
   @ jsl ['''',
          ''            </button>'',
          ''        '']\<close>

text \<open>
  \<open>updateCategorySelection\<close> changes class names, which are not part of the state, and
  looks the button of the selected category up with
  \<open>document.querySelector(`[data-category="${this.selectedCategory}"]`)\<close> unless the
  selection is \<open>All\<close>. The look-up throws when the string is not a selector,
  whichever page is shown (the message of the \<open>SyntaxError\<close> is the engine's).
\<close>

definition SyntaxError :: js_error where
  "SyntaxError = Error (js ''is not a valid selector'') None"

definition updateCategorySelection :: "platform \<Rightarrow> app \<Rightarrow> js_error + unit" where
  \<open>updateCategorySelection env a =
     (if selectedCategory a = js ''All'' then Inr ()
      else if querySelectorAccepts env (js ''[data-category="'' @ selectedCategory a @ js ''"]'')
        then Inr ()
      else Inl SyntaxError)\<close>

text \<open>
  \<open>renderCategories\<close> returns early when the list element is missing; otherwise it
  writes the list and ends with \<open>updateCategorySelection\<close>.
\<close>

definition renderCategories :: "platform \<Rightarrow> app \<Rightarrow> (js_error + unit) \<times> app" where
  "renderCategories env a =
     (if page a \<noteq> DashboardPage then (Inr (), a)
      else (updateCategorySelection env a,
            a\<lparr>categoriesList := concat (map categoryHtml (categories a))\<rparr>))"

subsection \<open>Pages\<close>

definition renderLoginPage :: "app \<Rightarrow> app" where
  "renderLoginPage a = a\<lparr>page := LoginPage\<rparr>"

definition renderSignupPage :: "app \<Rightarrow> app" where
  "renderSignupPage a = a\<lparr>page := SignupPage\<rparr>"

definition renderLoadingPage :: "app \<Rightarrow> app" where
  "renderLoadingPage a = a\<lparr>page := LoadingPage\<rparr>"

definition updatePostLabel :: "app \<Rightarrow> app" where
  "updatePostLabel a =
     (if page a \<noteq> DashboardPage then a
      else if selectedCategory a = js ''All'' then
        a\<lparr>postLabel := js ''What'' @ [0x27] @ js ''s on your mind?''\<rparr>
      else a\<lparr>postLabel := js ''Share in '' @ selectedCategory a\<rparr>)"

definition feedErrorHtml :: jsstring where
  \<open>feedErrorHtml =
     jsl ['''',
          ''                <div class="text-center text-red-600 py-8">'',
          ''                    <div class="w-12 h-12 bg-red-100 mx-auto mb-4 flex items-center justify-center">'',
          ''                        <div class="w-6 h-6 bg-red-400"></div>'',
          ''                    </div>'',
          ''                    <p>Error loading posts. Please try refreshing the page.</p>'',
          ''                </div>'',
          ''            '']\<close>

definition initializeFeed :: "platform \<Rightarrow> world \<Rightarrow> world" where
  "initializeFeed env w =
     (case subscribeToPosts (\<lambda>posts. renderPosts env posts) (Some (selectedCategory (st w))) 50 w of
        (Inl error, w1) \<Rightarrow>
          w1\<lparr>st := (console_error ''Error initializing feed:'' error (st w1))
                     \<lparr>postsContainer := feedErrorHtml\<rparr>\<rparr>
      | (Inr h, w1) \<Rightarrow>
          (case subscribeToCategories
                  (\<lambda>categories' a. renderCategories env (a\<lparr>categories := categories'\<rparr>))
                  (w1\<lparr>st := (st w1)\<lparr>postsUnsubscribe := Some h\<rparr>\<rparr>) of
             (Inl error, w2) \<Rightarrow>
               w2\<lparr>st := (console_error ''Error initializing feed:'' error (st w2))
                          \<lparr>postsContainer := feedErrorHtml\<rparr>\<rparr>
           | (Inr h', w2) \<Rightarrow> w2\<lparr>st := (st w2)\<lparr>categoriesUnsubscribe := Some h'\<rparr>\<rparr>))"

definition postsContainerTemplate :: jsstring where
  \<open>postsContainerTemplate =
     jsl ['''',
          ''                                    <div class="text-center text-custom-black py-8">'',
          ''                                        <div class="animate-spin h-8 w-8 border-b-2 border-custom-blue mx-auto mb-4"></div>'',
          ''                                        <p>Loading posts...</p>'',
          ''                                    </div>'',
          ''                                '']\<close>

definition categoriesListTemplate :: jsstring where
  \<open>categoriesListTemplate =
     jsl ['''',
          ''                                    <!-- Categories will be loaded here -->'',
          ''                                '']\<close>

definition renderDashboard :: "platform \<Rightarrow> world \<Rightarrow> world" where
  "renderDashboard env w =
     (case currentUser (st w) of
        None \<Rightarrow> w\<lparr>st := renderLoginPage (st w)\<rparr>
      | Some user \<Rightarrow>
          let w1 = w\<lparr>st := (st w)\<lparr> page := DashboardPage,
                                   postsContainer := postsContainerTemplate,
                                   categoriesList := categoriesListTemplate,
                                   postLabel := js ''What'' @ [0x27] @ js ''s on your mind?'',
                                   postContent := [],
                                   postError := None,
                                   postSuccess := None \<rparr>\<rparr>;
              w2 = initializeFeed env w1
          in w2\<lparr>st := updatePostLabel (st w2)\<rparr>)"

definition refreshFeed :: "platform \<Rightarrow> world \<Rightarrow> world" where
  "refreshFeed env w =
     (let w1 = (case postsUnsubscribe (st w) of None \<Rightarrow> w | Some h \<Rightarrow> unsubscribe h w)
      in case subscribeToPosts (\<lambda>posts. renderPosts env posts) (Some (selectedCategory (st w1))) 50 w1 of
           (Inr h, w2) \<Rightarrow> w2\<lparr>st := (st w2)\<lparr>postsUnsubscribe := Some h\<rparr>\<rparr>
         | (Inl error, w2) \<Rightarrow> w2\<lparr>st := console_error ''Error refreshing feed:'' error (st w2)\<rparr>)"

text \<open>
  \<open>selectCategory\<close> stores the name, updates the label, calls
  \<open>updateCategorySelection\<close> and then \<open>refreshFeed\<close>; when the third step throws, the
  fourth is not reached.
\<close>

definition selectCategory :: "platform \<Rightarrow> jsstring \<Rightarrow> world \<Rightarrow> (js_error + unit) \<times> world" where
  "selectCategory env categoryName w =
     (let w1 = w\<lparr>st := updatePostLabel ((st w)\<lparr>selectedCategory := categoryName\<rparr>)\<rparr>
      in case updateCategorySelection env (st w1) of
           Inl error \<Rightarrow> (Inl error, w1)
         | Inr _ \<Rightarrow> (Inr (), refreshFeed env w1))"

text \<open>The cleanup method of \<open>PageRenderer\<close>.\<close>

definition cleanup :: "world \<Rightarrow> world" where
  "cleanup w =
     (let w1 = (case postsUnsubscribe (st w) of None \<Rightarrow> w | Some h \<Rightarrow> unsubscribe h w)
      in case categoriesUnsubscribe (st w1) of None \<Rightarrow> w1 | Some h \<Rightarrow> unsubscribe h w1)"

subsection \<open>Events\<close>

text \<open>
  The listener that \<open>initialize\<close> registers with \<open>onAuthStateChanged\<close>, and
  \<open>handleAuthStateChange\<close>. \<open>window.pageRenderer\<close> is set before the listener is
  registered, so the early return for a missing renderer is never taken.
\<close>

definition handleAuthStateChange :: "platform \<Rightarrow> user option \<Rightarrow> world \<Rightarrow> world" where
  "handleAuthStateChange env user w =
     (case user of
        Some u \<Rightarrow> renderDashboard env w
      | None \<Rightarrow> w\<lparr>st := renderLoginPage (st w)\<rparr>)"

definition authStateChanged :: "platform \<Rightarrow> user option \<Rightarrow> world \<Rightarrow> world" where
  "authStateChanged env user w =
     handleAuthStateChange env user (w\<lparr>st := (st w)\<lparr>currentUser := user\<rparr>\<rparr>)"

text \<open>
  The click handler of the logout button. When \<open>signOut\<close> succeeds the provider reports
  the new authentication state (no user) to the listener above.
\<close>

definition logoutClick :: "platform \<Rightarrow> (js_error + unit) \<Rightarrow> world \<Rightarrow> world" where
  "logoutClick env signedOut w =
     (case logout signedOut (st w) of
        (Inr _, a) \<Rightarrow> authStateChanged env None (w\<lparr>st := a\<rparr>)
      | (Inl error, a) \<Rightarrow> w\<lparr>st := renderLoginPage (console_error ''Logout error:'' error a)\<rparr>)"

text \<open>
  The submit handler of the post form. \<open>postContent\<close> is the value of the textarea,
  whose \<open>maxlength\<close> attribute is 500. The timer that hides the success message after
  three seconds is left out.
\<close>

definition postContent_maxlength :: nat where
  "postContent_maxlength = 500"

definition postFormSubmit :: "(js_error + jsstring) \<Rightarrow> app \<Rightarrow> app" where
  "postFormSubmit added a =
     (let content' = trim (postContent a);
          a1 = a\<lparr>postError := None, postSuccess := None\<rparr>
      in if content' = [] then
           a1\<lparr>postError := Some (js ''Please enter some content to post'')\<rparr>
         else
           let category' = (if selectedCategory a1 = js ''All'' then js ''General''
                            else selectedCategory a1)
           in case createPost added content' (Some category') a1 of
                (Inr _, a2) \<Rightarrow>
                  a2\<lparr>postContent := [], postSuccess := Some (js ''Post created successfully!'')\<rparr>
              | (Inl error, a2) \<Rightarrow> a2\<lparr>postError := Some (message error)\<rparr>)"

text \<open>
  \<open>initializeAuthApp\<close>: a renderer with the fields its constructor sets, the loading
  page, and no listener registered.
\<close>

definition initial_app :: app where
  "initial_app =
     \<lparr> currentUser = None, calls = [], console = [],
       selectedCategory = js ''All'', categories = [],
       postsUnsubscribe = None, categoriesUnsubscribe = None,
       page = LoadingPage, postsContainer = [], categoriesList = [], postLabel = [],
       postContent = [], postError = None, postSuccess = None \<rparr>"

definition initial_world :: world where
  "initial_world = \<lparr> st = initial_app, listeners = Map.empty, nextHandle = 0, sdkFault = None \<rparr>"


section \<open>The link pattern, stated without the matcher\<close>

text \<open>
  What \<open>urlRegex\<close> accepts, said directly: \<open>http://\<close> or \<open>https://\<close>, then at least two
  code units none of which is white space, \<open><\<close>, \<open>>\<close>, \<open>"\<close> or \<open>'\<close>, the last of them
  not one of \<open>. , ! ? ; :\<close>. \<open>longest_url_prefix s\<close> is the longest prefix of \<open>s\<close> of
  that shape.
\<close>

definition url_char :: "code_unit \<Rightarrow> bool" where
  "url_char c = (\<not> isWhiteSpace c \<and> c \<noteq> 0x3C \<and> c \<noteq> 0x3E \<and> c \<noteq> 0x22 \<and> c \<noteq> 0x27)"

definition url_end :: "code_unit \<Rightarrow> bool" where
  "url_end c = (url_char c \<and> c \<noteq> 0x2E \<and> c \<noteq> 0x2C \<and> c \<noteq> 0x21 \<and> c \<noteq> 0x3F \<and> c \<noteq> 0x3B \<and> c \<noteq> 0x3A)"

definition url_body :: "jsstring \<Rightarrow> bool" where
  "url_body b = (2 \<le> length b \<and> list_all url_char b \<and> url_end (last b))"

definition url_shape :: "jsstring \<Rightarrow> bool" where
  "url_shape u =
     ((prefix (js ''http://'') u \<and> url_body (drop 7 u))
      \<or> (prefix (js ''https://'') u \<and> url_body (drop 8 u)))"

definition longest_url_prefix :: "jsstring \<Rightarrow> jsstring option" where
  "longest_url_prefix s =
     (case filter url_shape (rev (prefixes s)) of [] \<Rightarrow> None | u # _ \<Rightarrow> Some u)"

text \<open>
  \<open>split_urls\<close> cuts a text, from the left, into the links it contains and the code
  units between them: where the rest of the text starts with a link, the longest such
  link is the next piece, and the cut goes on behind it; elsewhere the next code unit
  is a piece of its own.
\<close>

datatype piece = Plain code_unit | Url jsstring

fun piece_text :: "piece \<Rightarrow> jsstring" where
  "piece_text (Plain c) = [c]"
| "piece_text (Url u) = u"

fun piece_urls :: "piece \<Rightarrow> jsstring list" where
  "piece_urls (Plain c) = []"
| "piece_urls (Url u) = [u]"

fun piece_ok :: "piece \<Rightarrow> bool" where
  "piece_ok (Plain c) = True"
| "piece_ok (Url u) = url_shape u"

function split_urls :: "jsstring \<Rightarrow> piece list" where
  "split_urls [] = []"
| "split_urls (c # s) =
     (case longest_url_prefix (c # s) of
        None \<Rightarrow> Plain c # split_urls s
      | Some u \<Rightarrow> Url u # split_urls (drop (length u) (c # s)))"
  by pat_completeness auto
termination
proof (relation "measure length")
  fix c s u
  assume "longest_url_prefix (c # s) = Some u"
  then obtain us where "filter url_shape (rev (prefixes (c # s))) = u # us"
    by (auto simp: longest_url_prefix_def split: list.splits)
  then have "url_shape u"
    by (blast dest: filter_eq_ConsD)
  then have "u \<noteq> []"
    by (auto simp: url_shape_def js_def)
  then show "(drop (length u) (c # s), c # s) \<in> measure length"
    by simp
qed simp_all

text \<open>
  The reading of the specification: a link is \<open>http://\<close> or \<open>https://\<close> followed by a
  run of code units that are not white space, without trailing punctuation.
\<close>

definition wellformed_url :: "jsstring \<Rightarrow> bool" where
  "wellformed_url u =
     (let run = (if prefix (js ''https://'') u then drop 8 u
                 else if prefix (js ''http://'') u then drop 7 u else [])
      in run \<noteq> [] \<and> list_all (\<lambda>c. \<not> isWhiteSpace c) run
         \<and> last run \<noteq> 0x2E \<and> last run \<noteq> 0x2C \<and> last run \<noteq> 0x21
         \<and> last run \<noteq> 0x3F \<and> last run \<noteq> 0x3B \<and> last run \<noteq> 0x3A)"

text \<open>Auxiliary notions for the proofs about \<open>urlRegex\<close>.\<close>

definition url_tail :: "jsstring \<Rightarrow> bool" where
  "url_tail b = (b \<noteq> [] \<and> list_all url_char b \<and> url_end (last b))"

definition tails_after :: "jsstring \<Rightarrow> jsstring list" where
  "tails_after t = map (\<lambda>b. drop (length b) t) (filter url_tail (rev (prefixes t)))"

definition bodies_after :: "jsstring \<Rightarrow> jsstring list" where
  "bodies_after t = map (\<lambda>b. drop (length b) t) (filter url_body (rev (prefixes t)))"

definition urlBody :: rx where
  "urlBody = Cat (Plus (NoneOf urlChars)) (NoneOf urlLast)"


section \<open>Example values\<close>

text \<open>
  A signed-in user, a state of the page in which she is the current user, and a platform
  whose time text is constant, whose link cards are empty, and which takes a string for
  a selector when it has two double quotes and neither a backslash nor a line break.
\<close>

definition alice :: user where
  "alice = \<lparr> uid = js ''u1'', email = js ''a@b.com'', emailVerified = False \<rparr>"

definition alice_app :: app where
  "alice_app = initial_app\<lparr>currentUser := Some alice\<rparr>"

definition example_platform :: platform where
  "example_platform =
     \<lparr> getTimeAgo = (\<lambda>t. js ''just now''),
       generateLinkPreview = (\<lambda>url. []),
       querySelectorAccepts =
         (\<lambda>selector. length (filter (\<lambda>c. c = 0x22) selector) = 2
            \<and> 0x5C \<notin> set selector \<and> 0x0A \<notin> set selector
            \<and> 0x0C \<notin> set selector \<and> 0x0D \<notin> set selector) \<rparr>"

text \<open>
  The world in which \<open>renderDashboard\<close> calls \<open>initializeFeed\<close> after she has signed in:
  the dashboard is written and no subscription is open yet.
\<close>

definition entering_world :: world where
  "entering_world =
     initial_world\<lparr>st := initial_app
       \<lparr> currentUser := Some alice, page := DashboardPage,
         postsContainer := postsContainerTemplate,
         categoriesList := categoriesListTemplate,
         postLabel := js ''What'' @ [0x27] @ js ''s on your mind?'' \<rparr>\<rparr>"

text \<open>The dashboard as it stands after the provider has reported that she signed in.\<close>

definition dashboard_world :: world where
  "dashboard_world = authStateChanged example_platform (Some alice) initial_world"


text \<open>The same dashboard with \<open>hello\<close> typed into the textarea of the post form.\<close>

definition typing_world :: world where
  "typing_world = dashboard_world\<lparr>st := (st dashboard_world)\<lparr>postContent := js ''hello''\<rparr>\<rparr>"

text \<open>A category named \<open>News\<close>.\<close>

definition news_category :: category_doc where
  "news_category =
     \<lparr> name = js ''News'', createdBy = js ''u1'', category_createdAt = ServerTimestamp,
       category_id = js ''c2'' \<rparr>"

text \<open>The dashboard after the provider has reported that category as the only one.\<close>

definition news_world :: world where
  "news_world = snd (snapshot_categories 1 [news_category] dashboard_world)"

text \<open>A category name that is markup, a post filed under it and the category itself.\<close>

definition markup :: jsstring where
  "markup = js ''<img src=x onerror=alert(1)>''"

definition markup_post :: post_doc where
  "markup_post =
     \<lparr> content = js ''hello'', category = markup, userId = js ''u1'',
       userEmail = js ''a@b.com'', createdAt = ServerTimestamp, updatedAt = ServerTimestamp,
       post_id = js ''p1'' \<rparr>"

definition markup_category :: category_doc where
  "markup_category =
     \<lparr> name = markup, createdBy = js ''u1'', category_createdAt = ServerTimestamp,
       category_id = js ''c1'' \<rparr>"

section \<open>Properties of the content formatter\<close>

subsection \<open>The regular expression\<close>

declare rx_match.simps [simp del]

lemma bad_urlChars: "list_ex (\<lambda>k. in_cls k c) urlChars = (\<not> url_char c)"
  by (auto simp: urlChars_def url_char_def)

lemma bad_urlLast: "list_ex (\<lambda>k. in_cls k c) urlLast = (\<not> url_end c)"
  by (auto simp: urlLast_def url_end_def url_char_def)

lemma plus_Nil: "rx_match (Plus (NoneOf cs)) [] = []"
  by (simp add: rx_match.simps)

lemma plus_Cons:
  "rx_match (Plus (NoneOf cs)) (c # t) =
     (if list_ex (\<lambda>k. in_cls k c) cs then [] else rx_match (Plus (NoneOf cs)) t @ [t])"
  by (simp add: rx_match.simps)

lemma prefixes_split: "\<exists>ps. prefixes t = [] # ps \<and> [] \<notin> set ps"
  by (cases t) auto

lemma filter_rev_prefixes_Cons:
  "filter P (rev (prefixes (c # t))) =
     map (Cons c) (filter (\<lambda>b. P (c # b)) (rev (prefixes t))) @ (if P [] then [[]] else [])"
  by (simp add: rev_map filter_map comp_def)

lemma url_tail_Cons: "url_tail (d # b) = (url_char d \<and> (if b = [] then url_end d else url_tail b))"
  by (auto simp: url_tail_def url_end_def)

lemma url_body_Cons: "url_body (c # b) = (url_char c \<and> url_tail b)"
  by (cases b) (auto simp: url_body_def url_tail_def)

lemma tails_after_Nil: "tails_after [] = []"
  by (simp add: tails_after_def url_tail_def)

lemma tails_after_Cons:
  "tails_after (d # t) =
     (if url_char d then tails_after t @ (if url_end d then [t] else []) else [])"
proof -
  obtain ps where ps: "prefixes t = [] # ps" "[] \<notin> set ps"
    using prefixes_split by blast
  have f: "filter (\<lambda>b. url_tail (d # b)) (rev ps) = (if url_char d then filter url_tail (rev ps) else [])"
    using ps(2) by (auto simp: url_tail_Cons intro!: filter_cong)
  have g: "filter (\<lambda>b. url_tail (d # b)) (rev (prefixes t)) =
             (if url_char d then filter url_tail (rev ps) @ (if url_end d then [[]] else []) else [])"
    unfolding ps(1) using f by (simp add: url_tail_Cons)
  have h: "filter url_tail (rev (prefixes t)) = filter url_tail (rev ps)"
    unfolding ps(1) by (simp add: url_tail_def)
  have n: "\<not> url_tail []" by (simp add: url_tail_def)
  show ?thesis
    unfolding tails_after_def filter_rev_prefixes_Cons g h
    using n by (simp add: comp_def)
qed

lemma bodies_after_Nil: "bodies_after [] = []"
  by (simp add: bodies_after_def url_body_def)

lemma bodies_after_Cons:
  "bodies_after (c # t) = (if url_char c then tails_after t else [])"
  unfolding bodies_after_def tails_after_def filter_rev_prefixes_Cons
  by (simp add: url_body_Cons comp_def) (simp add: url_body_def)

lemma rx_match_urlLast:
  "rx_match (NoneOf urlLast) s = (case s of [] \<Rightarrow> [] | c # t \<Rightarrow> if url_end c then [t] else [])"
  by (cases s) (simp_all add: bad_urlLast rx_match.simps)

lemma rx_match_urlChars_plus:
  "rx_match (Plus (NoneOf urlChars)) (c # t) =
     (if url_char c then rx_match (Plus (NoneOf urlChars)) t @ [t] else [])"
  by (simp add: bad_urlChars plus_Cons)

lemma last_step:
  "concat (map (rx_match (NoneOf urlLast)) (rx_match (Plus (NoneOf urlChars)) t @ [t])) = tails_after t"
proof (induction t)
  case Nil
  show ?case by (simp add: tails_after_Nil plus_Nil rx_match_urlLast)
next
  case (Cons d t)
  have e: "url_end d \<Longrightarrow> url_char d" by (simp add: url_end_def)
  have l: "rx_match (NoneOf urlLast) (d # t) = (if url_end d then [t] else [])"
    by (simp add: rx_match_urlLast)
  show ?case
  proof (cases "url_char d")
    case True
    have "concat (map (rx_match (NoneOf urlLast)) (rx_match (Plus (NoneOf urlChars)) (d # t) @ [d # t]))
          = concat (map (rx_match (NoneOf urlLast)) (rx_match (Plus (NoneOf urlChars)) t @ [t]))
            @ rx_match (NoneOf urlLast) (d # t)"
      unfolding rx_match_urlChars_plus using True by simp
    also have "\<dots> = tails_after t @ (if url_end d then [t] else [])"
      unfolding Cons.IH l ..
    finally show ?thesis using True by (simp add: tails_after_Cons)
  next
    case False
    then have "\<not> url_end d" using e by blast
    then show ?thesis
      unfolding rx_match_urlChars_plus using False l by (simp add: tails_after_Cons)
  qed
qed

lemma rx_match_urlBody: "rx_match urlBody s = bodies_after s"
proof (cases s)
  case Nil
  then show ?thesis by (simp add: urlBody_def bodies_after_Nil plus_Nil rx_match.simps(4))
next
  case (Cons c t)
  have "rx_match urlBody (c # t) =
          concat (map (rx_match (NoneOf urlLast)) (rx_match (Plus (NoneOf urlChars)) (c # t)))"
    by (simp add: urlBody_def rx_match.simps(4))
  also have "\<dots> = (if url_char c then tails_after t else [])"
    unfolding rx_match_urlChars_plus using last_step [of t] by simp
  finally show ?thesis unfolding Cons by (simp add: bodies_after_Cons)
qed


lemma filter_scheme_prefixes:
  "filter (\<lambda>u. prefix sch u \<and> Q (drop (length sch) u)) (rev (prefixes (sch @ s))) =
     map ((@) sch) (filter Q (rev (prefixes s)))"
proof (induction sch)
  case Nil
  show ?case by simp
next
  case (Cons a sch)
  have "filter (\<lambda>u. prefix (a # sch) u \<and> Q (drop (length (a # sch)) u))
           (rev (prefixes ((a # sch) @ s)))
        = map (Cons a) (filter (\<lambda>b. prefix sch b \<and> Q (drop (length sch) b))
                               (rev (prefixes (sch @ s))))"
    using filter_rev_prefixes_Cons
            [of "\<lambda>u. prefix (a # sch) u \<and> Q (drop (length (a # sch)) u)" a "sch @ s"]
    by simp
  then show ?case unfolding Cons.IH by simp
qed

lemma schemes_exclusive: "prefix (js ''http://'') s \<Longrightarrow> prefix (js ''https://'') s \<Longrightarrow> False"
proof -
  assume a: "prefix (js ''http://'') s" and b: "prefix (js ''https://'') s"
  have "prefix (js ''http://'') (js ''https://'') \<or> prefix (js ''https://'') (js ''http://'')"
    using a b prefix_same_cases by blast
  then show False by (simp add: js_def)
qed

lemma len_http: "length (js ''http://'') = 7" and len_https: "length (js ''https://'') = 8"
  by (simp_all add: js_def)

lemma url_prefixes_https:
  assumes "prefix (js ''https://'') s"
  shows "filter url_shape (rev (prefixes s)) =
           map ((@) (js ''https://'')) (filter url_body (rev (prefixes (drop 8 s))))"
proof -
  obtain s' where s: "s = js ''https://'' @ s'"
    using assms by (auto simp: prefix_def)
  have d: "drop 8 s = s'" unfolding s using len_https by simp
  have "filter url_shape (rev (prefixes s)) =
          filter (\<lambda>u. prefix (js ''https://'') u \<and> url_body (drop (length (js ''https://'')) u))
                 (rev (prefixes s))"
  proof (rule filter_cong [OF refl])
    fix u assume "u \<in> set (rev (prefixes s))"
    then have "prefix u s" by (simp add: in_set_prefixes)
    then have "\<not> prefix (js ''http://'') u"
      using assms schemes_exclusive prefix_order.order_trans by blast
    then show "url_shape u = (prefix (js ''https://'') u \<and> url_body (drop (length (js ''https://'')) u))"
      by (simp add: url_shape_def len_https)
  qed
  also have "\<dots> = map ((@) (js ''https://'')) (filter url_body (rev (prefixes s')))"
    unfolding s by (rule filter_scheme_prefixes)
  finally show ?thesis unfolding d .
qed

lemma url_prefixes_http:
  assumes "prefix (js ''http://'') s"
  shows "filter url_shape (rev (prefixes s)) =
           map ((@) (js ''http://'')) (filter url_body (rev (prefixes (drop 7 s))))"
proof -
  obtain s' where s: "s = js ''http://'' @ s'"
    using assms by (auto simp: prefix_def)
  have d: "drop 7 s = s'" unfolding s using len_http by simp
  have "filter url_shape (rev (prefixes s)) =
          filter (\<lambda>u. prefix (js ''http://'') u \<and> url_body (drop (length (js ''http://'')) u))
                 (rev (prefixes s))"
  proof (rule filter_cong [OF refl])
    fix u assume "u \<in> set (rev (prefixes s))"
    then have "prefix u s" by (simp add: in_set_prefixes)
    then have "\<not> prefix (js ''https://'') u"
      using assms schemes_exclusive prefix_order.order_trans by blast
    then show "url_shape u = (prefix (js ''http://'') u \<and> url_body (drop (length (js ''http://'')) u))"
      by (simp add: url_shape_def len_http)
  qed
  also have "\<dots> = map ((@) (js ''http://'')) (filter url_body (rev (prefixes s')))"
    unfolding s by (rule filter_scheme_prefixes)
  finally show ?thesis unfolding d .
qed

lemma url_prefixes_none:
  assumes "\<not> prefix (js ''http://'') s" "\<not> prefix (js ''https://'') s"
  shows "filter url_shape (rev (prefixes s)) = []"
proof -
  have "\<not> url_shape u" if "u \<in> set (rev (prefixes s))" for u
  proof -
    from that have "prefix u s" by (simp add: in_set_prefixes)
    then show ?thesis
      using assms prefix_order.order_trans unfolding url_shape_def by blast
  qed
  then show ?thesis by (simp add: filter_empty_conv)
qed

lemma rx_match_Lit_Cat:
  "rx_match (Cat (Lit l) r) s = (if prefix l s then rx_match r (drop (length l) s) else [])"
  by (simp add: rx_match.simps)

lemma rx_match_Opt_Lit_Cat:
  "rx_match (Cat (Opt (Lit l)) r) s =
     (if prefix l s then rx_match r (drop (length l) s) else []) @ rx_match r s"
  by (simp add: rx_match.simps)

lemma prefix_append_drop: "prefix (a @ b) s = (prefix a s \<and> prefix b (drop (length a) s))"
  by (auto simp: prefix_def)

lemma rx_match_urlRegex_cases:
  "rx_match urlRegex s =
     (if prefix (js ''https://'') s then bodies_after (drop 8 s)
      else if prefix (js ''http://'') s then bodies_after (drop 7 s)
      else [])"
proof -
  have r: "urlRegex = Cat (Lit (js ''http'')) (Cat (Opt (Lit (js ''s''))) (Cat (Lit (js ''://'')) urlBody))"
    by (simp add: urlRegex_def urlBody_def)
  have https: "js ''https://'' = js ''http'' @ js ''s'' @ js ''://''"
    and http: "js ''http://'' = js ''http'' @ js ''://''"
    by (simp_all add: js_def)
  have l: "length (js ''http'') = 4" "length (js ''s'') = 1" "length (js ''://'') = 3"
    by (simp_all add: js_def)
  have x: "\<not> (prefix (js ''s'') t \<and> prefix (js ''://'') t)" for t
    by (cases t) (simp_all add: js_def)
  show ?thesis
  proof (cases "prefix (js ''http'') s")
    case False
    then show ?thesis
      unfolding r rx_match_Lit_Cat https http prefix_append_drop by simp
  next
    case True
    show ?thesis
    proof (cases "prefix (js ''s'') (drop 4 s)")
      case s: True
      then have n: "\<not> prefix (js ''://'') (drop 4 s)" using x by blast
      show ?thesis
        unfolding r rx_match_Lit_Cat rx_match_Opt_Lit_Cat https http prefix_append_drop
        using True s n by (simp add: l rx_match_urlBody)
    next
      case s: False
      show ?thesis
        unfolding r rx_match_Lit_Cat rx_match_Opt_Lit_Cat https http prefix_append_drop
        using True s by (simp add: l rx_match_urlBody)
    qed
  qed
qed

lemma rx_match_urlRegex:
  "rx_match urlRegex s = map (\<lambda>u. drop (length u) s) (filter url_shape (rev (prefixes s)))"
proof -
  have a: "map (\<lambda>u. drop (length u) s) (map ((@) sch) bs) = map (\<lambda>b. drop (length b) (drop (length sch) s)) bs"
    for sch :: jsstring and bs
    by (simp add: comp_def add.commute)
  show ?thesis
  proof (cases "prefix (js ''https://'') s")
    case True
    show ?thesis
      unfolding rx_match_urlRegex_cases url_prefixes_https [OF True] a
      using True by (simp add: bodies_after_def len_https)
  next
    case False
    show ?thesis
    proof (cases "prefix (js ''http://'') s")
      case True
      show ?thesis
        unfolding rx_match_urlRegex_cases url_prefixes_http [OF True] a
        using True False by (simp add: bodies_after_def len_http)
    next
      case h: False
      show ?thesis
        unfolding rx_match_urlRegex_cases url_prefixes_none [OF h False]
        using h False by simp
    qed
  qed
qed

lemma rx_exec_urlRegex:
  "rx_exec urlRegex s =
     (case longest_url_prefix s of None \<Rightarrow> None | Some u \<Rightarrow> Some (u, drop (length u) s))"
proof (cases "filter url_shape (rev (prefixes s))")
  case Nil
  then show ?thesis
    by (simp add: rx_exec_def rx_match_urlRegex longest_url_prefix_def)
next
  case (Cons u us)
  then have "u \<in> set (filter url_shape (rev (prefixes s)))" by simp
  then have "prefix u s" by (simp add: in_set_prefixes)
  then obtain t where s: "s = u @ t" by (auto simp: prefix_def)
  show ?thesis
    using Cons by (simp add: rx_exec_def rx_match_urlRegex longest_url_prefix_def s)
qed

lemma longest_url_prefix_Some:
  "longest_url_prefix s = Some u \<Longrightarrow> url_shape u \<and> prefix u s \<and> u \<noteq> []"
proof -
  assume "longest_url_prefix s = Some u"
  then obtain us where "filter url_shape (rev (prefixes s)) = u # us"
    by (auto simp: longest_url_prefix_def split: list.splits)
  then have "u \<in> set (filter url_shape (rev (prefixes s)))"
    by simp
  then have "url_shape u" "prefix u s" by (simp_all add: in_set_prefixes)
  moreover from \<open>url_shape u\<close> have "u \<noteq> []" by (auto simp: url_shape_def js_def)
  ultimately show ?thesis by simp
qed


subsection \<open>Replacing and collecting the links\<close>

declare replace_global.simps [simp del] match_global.simps [simp del]

lemma longest_url_prefix_Nil: "longest_url_prefix [] = None"
  by (simp add: longest_url_prefix_def url_shape_def js_def)

lemma replace_global_urlRegex:
  assumes "\<And>m b a. getSubstitution m b a [m] replaceValue = f m"
  shows "replace_global urlRegex replaceValue before text =
           concat (map (\<lambda>p. case p of Plain c \<Rightarrow> [c] | Url u \<Rightarrow> f u) (split_urls text))"
proof (induction "text" arbitrary: before rule: split_urls.induct)
  case 1
  show ?case
    by (subst replace_global.simps) (simp add: rx_exec_urlRegex longest_url_prefix_Nil)
next
  case (2 c s)
  show ?case
  proof (cases "longest_url_prefix (c # s)")
    case None
    then show ?thesis
      using "2.IH"(1) by (subst replace_global.simps) (simp add: rx_exec_urlRegex)
  next
    case (Some u)
    then have "u \<noteq> []" using longest_url_prefix_Some by blast
    then have "length (drop (length u) (c # s)) < length (c # s)" by simp
    then show ?thesis
      using "2.IH"(2) [OF Some] Some assms
      by (subst replace_global.simps) (simp add: rx_exec_urlRegex)
  qed
qed

lemma match_global_urlRegex:
  "match_global urlRegex text = concat (map piece_urls (split_urls text))"
proof (induction "text" rule: split_urls.induct)
  case 1
  show ?case
    by (subst match_global.simps) (simp add: rx_exec_urlRegex longest_url_prefix_Nil)
next
  case (2 c s)
  show ?case
  proof (cases "longest_url_prefix (c # s)")
    case None
    then show ?thesis
      using "2.IH"(1) by (subst match_global.simps) (simp add: rx_exec_urlRegex)
  next
    case (Some u)
    then have "u \<noteq> []" using longest_url_prefix_Some by blast
    then have "length (drop (length u) (c # s)) < length (c # s)" by simp
    then show ?thesis
      using "2.IH"(2) [OF Some] Some by (subst match_global.simps) (simp add: rx_exec_urlRegex)
  qed
qed

lemma split_urls_text: "concat (map piece_text (split_urls text)) = text"
proof (induction "text" rule: split_urls.induct)
  case 1
  show ?case by simp
next
  case (2 c s)
  show ?case
  proof (cases "longest_url_prefix (c # s)")
    case None
    then show ?thesis using "2.IH"(1) by simp
  next
    case (Some u)
    then have "prefix u (c # s)" using longest_url_prefix_Some by blast
    then have "u @ drop (length u) (c # s) = c # s" by (auto simp: prefix_def)
    then show ?thesis using "2.IH"(2) [OF Some] Some by simp
  qed
qed

lemma split_urls_ok: "list_all piece_ok (split_urls text)"
proof (induction "text" rule: split_urls.induct)
  case 1
  show ?case by simp
next
  case (2 c s)
  show ?case
  proof (cases "longest_url_prefix (c # s)")
    case None
    then show ?thesis using "2.IH"(1) by simp
  next
    case (Some u)
    then have "url_shape u" using longest_url_prefix_Some by blast
    then show ?thesis using "2.IH"(2) [OF Some] Some by simp
  qed
qed


section \<open>Claims about the content formatter\<close>

lemma link_substitution:
  \<open>getSubstitution m b a [m]
     (js ''<a href="$1" target="_blank" rel="noopener noreferrer" class="text-custom-blue underline hover:opacity-80 font-medium">$1</a>'') =
   js ''<a href="'' @ m
   @ js ''" target="_blank" rel="noopener noreferrer" class="text-custom-blue underline hover:opacity-80 font-medium">''
   @ m @ js ''</a>''\<close>
  by (simp add: js_def isDigit_def digit_def)

text \<open>
  C7, as amended. \<open>linkifyText\<close> cuts the text at the links of the shape that the
  pattern accepts (\<open>http://\<close> or \<open>https://\<close>, then at least two code units that are
  neither white space nor \<open><\<close>, \<open>>\<close>, \<open>"\<close>, \<open>'\<close>, the last one not among
  \<open>. , ! ? ; :\<close>), taking from the left the longest link at each position. Every such
  link \<open>u\<close> is replaced by an anchor element whose \<open>href\<close> is \<open>u\<close>, whose \<open>target\<close> is
  \<open>_blank\<close>, whose \<open>rel\<close> is \<open>noopener noreferrer\<close> and whose text is \<open>u\<close>; every code
  unit between the links is copied as it is; the pieces put together are the text; and
  \<open>extractUrls\<close> returns the same links.
\<close>

theorem linkifyText_wraps_urls:
  \<open>linkifyText text =
     concat (map (\<lambda>p. case p of
                    Plain c \<Rightarrow> [c]
                  | Url u \<Rightarrow>
                      js ''<a href="'' @ u
                      @ js ''" target="_blank" rel="noopener noreferrer" class="text-custom-blue underline hover:opacity-80 font-medium">''
                      @ u @ js ''</a>'')
              (split_urls text))
   \<and> concat (map piece_text (split_urls text)) = text
   \<and> list_all piece_ok (split_urls text)
   \<and> extractUrls text = concat (map piece_urls (split_urls text))\<close>
  unfolding linkifyText_def extractUrls_def
  using replace_global_urlRegex [OF link_substitution, of "[]" "text"]
  by (simp add: match_global_urlRegex split_urls_text split_urls_ok)

theorem linkifyText_wraps_urls_witness:
  \<open>linkifyText (js ''a http://b.c!'') =
     js ''a <a href="http://b.c" target="_blank" rel="noopener noreferrer" class="text-custom-blue underline hover:opacity-80 font-medium">http://b.c</a>!''
   \<and> extractUrls (js ''a http://b.c!'') = [js ''http://b.c'']\<close>
proof -
  have e: "split_urls (js ''a http://b.c!'') =
             [Plain 0x61, Plain 0x20, Url (js ''http://b.c''), Plain 0x21]"
    by code_simp
  show ?thesis
    using linkifyText_wraps_urls [of "js ''a http://b.c!''"]
    unfolding e by (simp add: js_def)
qed

text \<open>
  C7 as the specification states it fails. Each of the five texts below is a scheme
  followed by a run without white space and without trailing punctuation. \<open>linkifyText\<close>
  returns \<open>http://x\<close> as it is, with no anchor, and in the other four it wraps
  \<open>http://ab\<close> only: the run is cut at \<open><\<close>, \<open>>\<close>, \<open>"\<close> and \<open>'\<close>, and what follows stays
  outside the anchor.
\<close>

theorem linkifyText_wellformed_counterexample:
  \<open>wellformed_url (js ''http://x'')
   \<and> linkifyText (js ''http://x'') = js ''http://x''
   \<and> wellformed_url (js ''http://ab<cd'')
   \<and> linkifyText (js ''http://ab<cd'') = js ''<a href="http://ab" target="_blank" rel="noopener noreferrer" class="text-custom-blue underline hover:opacity-80 font-medium">http://ab</a><cd''
   \<and> wellformed_url (js ''http://ab>cd'')
   \<and> linkifyText (js ''http://ab>cd'') = js ''<a href="http://ab" target="_blank" rel="noopener noreferrer" class="text-custom-blue underline hover:opacity-80 font-medium">http://ab</a>>cd''
   \<and> wellformed_url (js ''http://ab"cd'')
   \<and> linkifyText (js ''http://ab"cd'') = js ''<a href="http://ab" target="_blank" rel="noopener noreferrer" class="text-custom-blue underline hover:opacity-80 font-medium">http://ab</a>"cd''
   \<and> wellformed_url (js ''http://ab'' @ [0x27] @ js ''cd'')
   \<and> linkifyText (js ''http://ab'' @ [0x27] @ js ''cd'') = js ''<a href="http://ab" target="_blank" rel="noopener noreferrer" class="text-custom-blue underline hover:opacity-80 font-medium">http://ab</a>'' @ [0x27] @ js ''cd''\<close>
  by code_simp

section \<open>Claims about the gateway\<close>

subsection \<open>trim\<close>

lemma trim_Nil: "trim [] = []"
  by (simp add: trim_def)

lemma length_trim_le: "length (trim s) \<le> length s"
proof -
  have "length (trim s) \<le> length (rev (dropWhile isWhiteSpace s))"
    unfolding trim_def length_rev
    using length_dropWhile_le [of isWhiteSpace "rev (dropWhile isWhiteSpace s)"] by simp
  also have "\<dots> \<le> length s"
    by (simp add: length_dropWhile_le)
  finally show ?thesis .
qed

lemma dropWhile_id: "xs \<noteq> [] \<Longrightarrow> \<not> P (hd xs) \<Longrightarrow> dropWhile P xs = xs"
  by (cases xs) simp_all

lemma trim_id:
  assumes "s \<noteq> []" "\<not> isWhiteSpace (hd s)" "\<not> isWhiteSpace (last s)"
  shows "trim s = s"
proof -
  have a: "dropWhile isWhiteSpace s = s"
    using assms(1,2) by (rule dropWhile_id)
  have "rev s \<noteq> []" "\<not> isWhiteSpace (hd (rev s))"
    using assms(1,3) by (simp_all add: hd_rev)
  then have b: "dropWhile isWhiteSpace (rev s) = rev s"
    by (rule dropWhile_id)
  show ?thesis by (simp add: trim_def a b)
qed

lemma trim_trim: "trim (trim s) = trim s"
proof (cases "trim s = []")
  case True
  then show ?thesis by (simp add: trim_Nil)
next
  case False
  define t where "t = dropWhile isWhiteSpace s"
  define r where "r = dropWhile isWhiteSpace (rev t)"
  have ts: "trim s = rev r" by (simp add: trim_def t_def r_def)
  with False have rn: "r \<noteq> []" by simp
  then have tn: "t \<noteq> []" by (auto simp: r_def)
  have hr: "\<not> isWhiteSpace (hd r)"
    using rn unfolding r_def by (metis hd_dropWhile)
  have ht: "\<not> isWhiteSpace (hd t)"
    using tn unfolding t_def by (metis hd_dropWhile)
  obtain p where "rev t = p @ r"
    unfolding r_def by (metis takeWhile_dropWhile_id)
  then have "last (rev t) = last r" using rn by simp
  then have lr: "last r = hd t" using tn by (simp add: last_rev)
  have "trim (rev r) = rev r"
  proof (rule trim_id)
    show "rev r \<noteq> []" using rn by simp
    show "\<not> isWhiteSpace (hd (rev r))" using rn lr ht by (simp add: hd_rev)
    show "\<not> isWhiteSpace (last (rev r))" using rn hr by (simp add: last_rev)
  qed
  then show ?thesis by (simp add: ts)
qed

subsection \<open>Creating posts and categories\<close>

text \<open>
  C4. While no user is authenticated, \<open>createPost\<close> and \<open>createCategory\<close> fail with
  their authentication-required error whatever the content or the name is, and leave
  the state as it was: no call to the provider is issued.
\<close>

theorem create_requires_authentication:
  "currentUser a = None \<Longrightarrow>
     createPost added content' category' a =
       (Inl (Error (js ''User must be authenticated to create posts'') None), a)
     \<and> createCategory added' categoryName a =
       (Inl (Error (js ''User must be authenticated to create categories'') None), a)"
  by (simp add: createPost_def createCategory_def)

theorem create_requires_authentication_witness:
  "currentUser initial_app = None
   \<and> createPost (Inr (js ''p1'')) (js ''hello'') None initial_app =
       (Inl (Error (js ''User must be authenticated to create posts'') None), initial_app)
   \<and> createCategory (Inr (js ''c1'')) (js ''News'') initial_app =
       (Inl (Error (js ''User must be authenticated to create categories'') None), initial_app)"
proof -
  have h: "currentUser initial_app = None" by (simp add: initial_app_def)
  show ?thesis using h create_requires_authentication [OF h] by simp
qed

text \<open>
  C5. When the content is empty after trimming, \<open>createPost\<close> fails and leaves the state
  as it was, so no document is added: with the error \<open>Post content cannot be empty\<close> for
  a signed-in user, and with the authentication-required error, which the function
  checks first, when nobody is signed in.
\<close>

theorem createPost_blank_content_rejected:
  "trim content' = [] \<Longrightarrow>
     createPost added content' category' a =
       (Inl (Error (if currentUser a = None
                    then js ''User must be authenticated to create posts''
                    else js ''Post content cannot be empty'') None), a)"
  by (auto simp: createPost_def split: option.splits)

theorem createPost_blank_content_rejected_witness:
  "trim (js ''   '') = []
   \<and> createPost (Inr (js ''p1'')) (js ''   '') None alice_app =
       (Inl (Error (js ''Post content cannot be empty'') None), alice_app)"
proof -
  have h: "trim (js ''   '') = []" by (simp add: trim_def js_def isWhiteSpace_def)
  have u: "currentUser alice_app = Some alice" by (simp add: alice_app_def)
  show ?thesis using h u createPost_blank_content_rejected [OF h, of "Inr (js ''p1'')" None alice_app] by simp
qed

text \<open>
  C3, as amended. A post that \<open>createPost\<close> persists has as content the trimmed argument:
  it is trimmed, non-empty and no longer than the argument, so it has at most 500 code
  units whenever the argument has. \<open>createPost\<close> itself sets no bound on the length.
\<close>

theorem createPost_content_invariant:
  "createPost added content' category' a = (Inr p, a') \<Longrightarrow>
     content p = trim content'
     \<and> trim (content p) = content p
     \<and> content p \<noteq> []
     \<and> (length content' \<le> 500 \<longrightarrow> length (content p) \<le> 500)
     \<and> calls a' = calls a @ [AddDoc_posts (post_data.truncate p)]"
  using length_trim_le [of content']
  by (auto simp: createPost_def Let_def issue_def post_data.truncate_def post_data.extend_def
        post_doc.fields_def trim_trim split: option.splits if_splits sum.splits)

theorem createPost_content_invariant_witness:
  "createPost (Inr (js ''p1'')) (js '' hi '') None alice_app =
     (Inr \<lparr> content = js ''hi'', category = js ''General'', userId = js ''u1'',
            userEmail = js ''a@b.com'', createdAt = ServerTimestamp,
            updatedAt = ServerTimestamp, post_id = js ''p1'' \<rparr>,
      issue (AddDoc_posts \<lparr> content = js ''hi'', category = js ''General'', userId = js ''u1'',
               userEmail = js ''a@b.com'', createdAt = ServerTimestamp,
               updatedAt = ServerTimestamp \<rparr>) alice_app)
   \<and> trim (js ''hi'') = js ''hi''
   \<and> js ''hi'' \<noteq> []
   \<and> length (js ''hi'') \<le> 500"
proof -
  have t: "trim (js '' hi '') = js ''hi''"
    by (simp add: trim_def js_def isWhiteSpace_def)
  have h: "createPost (Inr (js ''p1'')) (js '' hi '') None alice_app =
     (Inr \<lparr> content = js ''hi'', category = js ''General'', userId = js ''u1'',
            userEmail = js ''a@b.com'', createdAt = ServerTimestamp,
            updatedAt = ServerTimestamp, post_id = js ''p1'' \<rparr>,
      issue (AddDoc_posts \<lparr> content = js ''hi'', category = js ''General'', userId = js ''u1'',
               userEmail = js ''a@b.com'', createdAt = ServerTimestamp,
               updatedAt = ServerTimestamp \<rparr>) alice_app)"
    by (simp add: createPost_def alice_app_def alice_def initial_app_def t Let_def
          post_data.extend_def post_doc.fields_def)
       (simp add: js_def)
  have c: "trim (js ''hi'') = js ''hi'' \<and> js ''hi'' \<noteq> []
           \<and> (length (js '' hi '') \<le> 500 \<longrightarrow> length (js ''hi'') \<le> 500)"
    using createPost_content_invariant [OF h] by (simp add: t)
  have l: "length (js '' hi '') \<le> 500"
    by (simp add: js_def)
  show ?thesis
    using h c l by blast
qed

text \<open>
  C3 as the specification states it fails: for a signed-in user \<open>createPost\<close> persists a
  content of 501 letters \<open>a\<close>.
\<close>

theorem createPost_long_content_counterexample:
  "createPost (Inr (js ''p1'')) (replicate 501 0x61) None alice_app =
     (Inr \<lparr> content = replicate 501 0x61, category = js ''General'', userId = js ''u1'',
            userEmail = js ''a@b.com'', createdAt = ServerTimestamp,
            updatedAt = ServerTimestamp, post_id = js ''p1'' \<rparr>,
      issue (AddDoc_posts \<lparr> content = replicate 501 0x61, category = js ''General'',
               userId = js ''u1'', userEmail = js ''a@b.com'', createdAt = ServerTimestamp,
               updatedAt = ServerTimestamp \<rparr>) alice_app)
   \<and> \<not> length (replicate 501 (0x61 :: code_unit)) \<le> 500"
proof -
  have w: "\<not> isWhiteSpace 0x61"
    by (simp add: isWhiteSpace_def)
  have t: "trim (replicate 501 0x61) = replicate 501 0x61"
    by (rule trim_id) (simp_all add: w)
  show ?thesis
    by (simp add: createPost_def alice_app_def alice_def initial_app_def t Let_def
          post_data.extend_def post_doc.fields_def)
qed

subsection \<open>Signing in and registering\<close>

text \<open>
  C9. When the sign-in succeeds, \<open>authenticateUser\<close> writes the last-login field of the
  user's profile document with a merging \<open>setDoc\<close> and returns the signed-in user
  whatever becomes of that write: the calls made are the sign-in and the write, and a
  failure of the write is written to the console and changes nothing else.
\<close>

theorem authenticateUser_profile_failure_not_surfaced:
  "authenticateUser (Inr user) written email' password a =
     (Inr user,
      a\<lparr> calls := calls a @ [SignInWithEmailAndPassword email' password,
                              SetDoc ''users'' (uid user)
                                [(''lastLogin'', Time ServerTimestamp)] True],
         console := console a @ (case written of
                                   Inl error \<Rightarrow> [(js ''Error updating user profile:'', error)]
                                 | Inr _ \<Rightarrow> []) \<rparr>)"
  by (cases written)
     (simp_all add: authenticateUser_def updateUserProfile_def issue_def console_error_def)

text \<open>
  C10. When the identity is created and the write of the profile document fails,
  \<open>registerUser\<close> throws \<open>Authentication failed. Please try again\<close>, the error it also
  throws when the creation of the identity fails without a known code. The calls made
  are the creation and the write: nothing is issued afterwards that would remove the
  identity.
\<close>

theorem registerUser_profile_failure_generic:
  "fst (registerUser (Inr user) (Inl error) email' password a) =
     Inl (Error (js ''Authentication failed. Please try again'') None)
   \<and> fst (registerUser (Inl (Error m None)) written email' password a) =
     Inl (Error (js ''Authentication failed. Please try again'') None)
   \<and> calls (snd (registerUser (Inr user) (Inl error) email' password a)) =
       calls a @ [CreateUserWithEmailAndPassword email' password,
                  SetDoc ''users'' (uid user)
                    [(''email'', Str email'), (''createdAt'', Time ServerTimestamp),
                     (''lastLogin'', Time ServerTimestamp)] False]
   \<and> console (snd (registerUser (Inr user) (Inl error) email' password a)) =
       console a @ [(js ''Error creating user profile:'', error)]"
  by (simp add: registerUser_def createUserProfile_def handleFirebaseError_def issue_def
        console_error_def)

subsection \<open>Errors of a live query\<close>

text \<open>
  C8. Let a subscription have been opened. In every world in which its listener is
  still registered under its handle, an error that the provider reports for the query
  makes the handler write the error to the console and call the subscriber's callback
  with the empty list; what the handler returns and leaves behind is what the callback
  does, so no exception arises that the callback does not throw itself.
\<close>

theorem subscription_error_calls_back_empty:
  "(subscribeToPosts callback category' n w = (Inr h, w') \<and> listeners w2 h = listeners w' h \<longrightarrow>
      query_error h error w2 =
        (fst (callback [] (console_error ''Error listening to posts:'' error (st w2))),
         w2\<lparr>st := snd (callback [] (console_error ''Error listening to posts:'' error (st w2)))\<rparr>))
   \<and> (subscribeToCategories callback' w = (Inr h, w') \<and> listeners w2 h = listeners w' h \<longrightarrow>
      query_error h error w2 =
        (fst (callback' [] (console_error ''Error listening to categories:'' error (st w2))),
         w2\<lparr>st := snd (callback' [] (console_error ''Error listening to categories:'' error (st w2)))\<rparr>))"
  by (auto simp: subscribeToPosts_def subscribeToCategories_def onSnapshot_def query_error_def
        Let_def split: if_splits option.splits prod.splits)

section \<open>Claims about the view controller\<close>

subsection \<open>What selecting a category leaves as it is\<close>

lemma subscribeToPosts_keeps:
  "selectedCategory (st (snd (subscribeToPosts cb c n w))) = selectedCategory (st w)
   \<and> currentUser (st (snd (subscribeToPosts cb c n w))) = currentUser (st w)
   \<and> postContent (st (snd (subscribeToPosts cb c n w))) = postContent (st w)"
  by (simp add: subscribeToPosts_def onSnapshot_def issue_def console_error_def Let_def
        split: option.splits)

lemma unsubscribe_keeps:
  "selectedCategory (st (unsubscribe h w)) = selectedCategory (st w)
   \<and> currentUser (st (unsubscribe h w)) = currentUser (st w)
   \<and> postContent (st (unsubscribe h w)) = postContent (st w)"
  by (simp add: unsubscribe_def issue_def)

lemma refreshFeed_keeps:
  "selectedCategory (st (refreshFeed env w)) = selectedCategory (st w)
   \<and> currentUser (st (refreshFeed env w)) = currentUser (st w)
   \<and> postContent (st (refreshFeed env w)) = postContent (st w)"
proof -
  define w1 where "w1 = (case postsUnsubscribe (st w) of None \<Rightarrow> w | Some h \<Rightarrow> unsubscribe h w)"
  have k1: "selectedCategory (st w1) = selectedCategory (st w)
            \<and> currentUser (st w1) = currentUser (st w) \<and> postContent (st w1) = postContent (st w)"
    unfolding w1_def by (simp add: unsubscribe_keeps split: option.splits)
  obtain r w2 where
    e: "subscribeToPosts (\<lambda>posts. renderPosts env posts) (Some (selectedCategory (st w1))) 50 w1 = (r, w2)"
    by fastforce
  have k2: "selectedCategory (st w2) = selectedCategory (st w1)
            \<and> currentUser (st w2) = currentUser (st w1) \<and> postContent (st w2) = postContent (st w1)"
    using subscribeToPosts_keeps
            [of "\<lambda>posts. renderPosts env posts" "Some (selectedCategory (st w1))" 50 w1]
    unfolding e by simp
  have "refreshFeed env w =
          (case r of Inr h \<Rightarrow> w2\<lparr>st := (st w2)\<lparr>postsUnsubscribe := Some h\<rparr>\<rparr>
           | Inl error \<Rightarrow> w2\<lparr>st := console_error ''Error refreshing feed:'' error (st w2)\<rparr>)"
    unfolding refreshFeed_def w1_def [symmetric] Let_def e by simp
  then show ?thesis
    using k1 k2 by (simp add: console_error_def split: sum.splits)
qed

lemma selectCategory_fields:
  "selectedCategory (st (snd (selectCategory env X w))) = X
   \<and> currentUser (st (snd (selectCategory env X w))) = currentUser (st w)
   \<and> postContent (st (snd (selectCategory env X w))) = postContent (st w)"
  unfolding selectCategory_def Let_def
  by (simp add: refreshFeed_keeps updatePostLabel_def split: sum.splits)

subsection \<open>The category of a submitted post\<close>

lemma postFormSubmit_calls:
  assumes "currentUser a = Some user" "trim (postContent a) \<noteq> []"
  shows "calls (postFormSubmit (Inr docId) a) =
           calls a @ [AddDoc_posts \<lparr> content = trim (postContent a),
                        category = (if selectedCategory a = js ''All'' then js ''General''
                                    else selectedCategory a),
                        userId = uid user, userEmail = email user,
                        createdAt = ServerTimestamp, updatedAt = ServerTimestamp \<rparr>]"
  using assms
  by (simp add: postFormSubmit_def createPost_def Let_def issue_def trim_trim)

text \<open>
  C6. Selecting a category stores its name, whether or not the look-up of its button
  throws afterwards. A post then submitted by a signed-in user with some content is
  handed to the provider with the category \<open>General\<close> when the selection is \<open>All\<close>,
  and with the selected category otherwise.
\<close>

theorem post_category_follows_selection:
  assumes "currentUser (st w) = Some user" "trim (postContent (st w)) \<noteq> []"
  shows "selectedCategory (st (snd (selectCategory env X w))) = X
         \<and> calls (postFormSubmit (Inr docId) (st (snd (selectCategory env X w)))) =
             calls (st (snd (selectCategory env X w)))
             @ [AddDoc_posts \<lparr> content = trim (postContent (st w)),
                  category = (if X = js ''All'' then js ''General'' else X),
                  userId = uid user, userEmail = email user,
                  createdAt = ServerTimestamp, updatedAt = ServerTimestamp \<rparr>]"
proof -
  let ?a = "st (snd (selectCategory env X w))"
  have "currentUser ?a = Some user" "trim (postContent ?a) \<noteq> []"
    using assms by (simp_all add: selectCategory_fields)
  from postFormSubmit_calls [OF this, of docId]
  show ?thesis by (simp add: selectCategory_fields)
qed

subsection \<open>The dashboard and the logout\<close>

lemma logoutClick_keeps_listeners:
  "listeners (logoutClick env signedOut w) = listeners w
   \<and> page (st (logoutClick env signedOut w)) = LoginPage"
  by (auto simp: logoutClick_def logout_def authStateChanged_def handleAuthStateChange_def
        renderLoginPage_def issue_def console_error_def split: sum.splits)

lemma dashboard_world_eval:
  "page (st dashboard_world) = DashboardPage"
  "currentUser (st dashboard_world) = Some alice"
  "postsUnsubscribe (st dashboard_world) = Some 0"
  "categoriesUnsubscribe (st dashboard_world) = Some 1"
  "dom (listeners dashboard_world) = {0, 1}"
  "nextHandle dashboard_world = 2"
  "sdkFault dashboard_world = None"
  "calls (st dashboard_world) =
     [OnSnapshot \<lparr> collection = ''posts'', whereCategory = None, orderByField = ''createdAt'',
                   orderByDirection = Desc, limitCount = Some 50 \<rparr> 0,
      OnSnapshot \<lparr> collection = ''categories'', whereCategory = None, orderByField = ''createdAt'',
                   orderByDirection = Asc, limitCount = None \<rparr> 1]"
  by (auto simp: dashboard_world_def authStateChanged_def handleAuthStateChange_def
        renderDashboard_def initializeFeed_def subscribeToPosts_def subscribeToCategories_def
        onSnapshot_def updatePostLabel_def issue_def initial_world_def initial_app_def Let_def js_def)


lemma logoutClick_calls:
  "calls (st (logoutClick env signedOut w)) = calls (st w) @ [SignOut]"
  by (auto simp: logoutClick_def logout_def authStateChanged_def handleAuthStateChange_def
        renderLoginPage_def issue_def console_error_def split: sum.splits)

lemma dashboard_listeners:
  "listeners dashboard_world 0 =
     Some (PostsListener
       \<lparr> collection = ''posts'', whereCategory = None, orderByField = ''createdAt'',
         orderByDirection = Desc, limitCount = Some 50 \<rparr>
       (\<lambda>snapshot. renderPosts example_platform snapshot)
       (\<lambda>error a. renderPosts example_platform []
                     (console_error ''Error listening to posts:'' error a)))"
  "listeners dashboard_world (Suc 0) =
     Some (CategoriesListener
       \<lparr> collection = ''categories'', whereCategory = None, orderByField = ''createdAt'',
         orderByDirection = Asc, limitCount = None \<rparr>
       (\<lambda>snapshot a. renderCategories example_platform (a\<lparr>categories := snapshot\<rparr>))
       (\<lambda>error a. renderCategories example_platform
                     ((console_error ''Error listening to categories:'' error a)\<lparr>categories := []\<rparr>)))"
  by (auto simp: dashboard_world_def authStateChanged_def handleAuthStateChange_def
        renderDashboard_def initializeFeed_def subscribeToPosts_def subscribeToCategories_def
        onSnapshot_def updatePostLabel_def issue_def initial_world_def initial_app_def Let_def js_def)

lemma updatePostLabel_calls: "calls (updatePostLabel a) = calls a"
  by (simp add: updatePostLabel_def)

lemma typing_world_eval:
  "currentUser (st typing_world) = Some alice"
  "postContent (st typing_world) = js ''hello''"
  "calls (st typing_world) = calls (st dashboard_world)"
  by (simp_all add: typing_world_def dashboard_world_eval)

text \<open>
  C6 at an example: with \<open>hello\<close> in the textarea, the post goes out under \<open>News\<close> after
  \<open>News\<close> has been selected and under \<open>General\<close> after \<open>All\<close> has been selected. For
  the name \<open>a"b\<close> the look-up of the button throws and the feed is not refreshed (no
  call is issued), and the post still goes out under \<open>a"b\<close>.
\<close>

theorem post_category_follows_selection_witness:
  \<open>currentUser (st typing_world) = Some alice
   \<and> trim (postContent (st typing_world)) \<noteq> []
   \<and> fst (selectCategory example_platform (js ''News'') typing_world) = Inr ()
   \<and> calls (postFormSubmit (Inr (js ''p1'')) (st (snd (selectCategory example_platform (js ''News'') typing_world)))) =
       calls (st (snd (selectCategory example_platform (js ''News'') typing_world)))
       @ [AddDoc_posts \<lparr> content = js ''hello'', category = js ''News'', userId = js ''u1'',
            userEmail = js ''a@b.com'', createdAt = ServerTimestamp, updatedAt = ServerTimestamp \<rparr>]
   \<and> calls (postFormSubmit (Inr (js ''p2'')) (st (snd (selectCategory example_platform (js ''All'') typing_world)))) =
       calls (st (snd (selectCategory example_platform (js ''All'') typing_world)))
       @ [AddDoc_posts \<lparr> content = js ''hello'', category = js ''General'', userId = js ''u1'',
            userEmail = js ''a@b.com'', createdAt = ServerTimestamp, updatedAt = ServerTimestamp \<rparr>]
   \<and> fst (selectCategory example_platform (js ''a"b'') typing_world) = Inl SyntaxError
   \<and> calls (st (snd (selectCategory example_platform (js ''a"b'') typing_world))) =
       calls (st typing_world)
   \<and> calls (postFormSubmit (Inr (js ''p3'')) (st (snd (selectCategory example_platform (js ''a"b'') typing_world)))) =
       calls (st typing_world)
       @ [AddDoc_posts \<lparr> content = js ''hello'', category = js ''a"b'', userId = js ''u1'',
            userEmail = js ''a@b.com'', createdAt = ServerTimestamp, updatedAt = ServerTimestamp \<rparr>]\<close>
proof -
  have t: "trim (js ''hello'') = js ''hello''"
    by (simp add: trim_def js_def isWhiteSpace_def)
  have u: "currentUser (st typing_world) = Some alice"
    by (rule typing_world_eval)
  have c: "postContent (st typing_world) = js ''hello''"
    by (rule typing_world_eval)
  have n: "trim (postContent (st typing_world)) \<noteq> []"
    unfolding c t by (simp add: js_def)
  have d: "js ''News'' \<noteq> js ''All''" \<open>js ''a"b'' \<noteq> js ''All''\<close>
    by (simp_all add: js_def)
  have s1: "updateCategorySelection example_platform
              (updatePostLabel ((st typing_world)\<lparr>selectedCategory := js ''News''\<rparr>)) = Inr ()"
    by (simp add: updateCategorySelection_def updatePostLabel_def example_platform_def js_def)
  have s3: \<open>updateCategorySelection example_platform
              (updatePostLabel ((st typing_world)\<lparr>selectedCategory := js ''a"b''\<rparr>)) = Inl SyntaxError\<close>
    by (simp add: updateCategorySelection_def updatePostLabel_def example_platform_def js_def)
  have f1: "fst (selectCategory example_platform (js ''News'') typing_world) = Inr ()"
    by (simp add: selectCategory_def Let_def s1)
  have f3: \<open>fst (selectCategory example_platform (js ''a"b'') typing_world) = Inl SyntaxError\<close>
    by (simp add: selectCategory_def Let_def s3)
  have k3: \<open>calls (st (snd (selectCategory example_platform (js ''a"b'') typing_world))) =
              calls (st typing_world)\<close>
    by (simp add: selectCategory_def Let_def s3 updatePostLabel_calls)
  show ?thesis
    using u n f1 f3 k3
      post_category_follows_selection [OF u n, of example_platform "js ''News''" "js ''p1''"]
      post_category_follows_selection [OF u n, of example_platform "js ''All''" "js ''p2''"]
      post_category_follows_selection [OF u n, of example_platform \<open>js ''a"b''\<close> "js ''p3''"]
    by (simp add: c t d alice_def)
qed

lemma postFormSubmit_content_bounded:
  assumes "length (postContent a) \<le> postContent_maxlength"
    and "currentUser a = Some user" and "trim (postContent a) \<noteq> []"
  shows "\<exists>d. calls (postFormSubmit (Inr docId) a) = calls a @ [AddDoc_posts d]
             \<and> length (content d) \<le> 500"
  using postFormSubmit_calls [OF assms(2,3), of docId] assms(1)
        length_trim_le [of "postContent a"]
  by (simp add: postContent_maxlength_def)

text \<open>
  C2. The claim asks that both subscriptions be released when the dashboard is left by
  a logout. The code does not do so: on the dashboard with its two subscriptions, the
  click on the logout button (the sign-out succeeding) shows the login page, issues
  the sign-out and nothing else, and leaves both listeners registered. The \<open>cleanup\<close>
  method would release both; no handler calls it.
\<close>

theorem logout_leaves_subscriptions_open:
  "page (st (logoutClick example_platform (Inr ()) dashboard_world)) = LoginPage
   \<and> dom (listeners (logoutClick example_platform (Inr ()) dashboard_world)) = {0, 1}
   \<and> calls (st (logoutClick example_platform (Inr ()) dashboard_world)) =
       calls (st dashboard_world) @ [SignOut]
   \<and> dom (listeners (cleanup dashboard_world)) = {}"
proof -
  have e: "cleanup dashboard_world = unsubscribe 1 (unsubscribe 0 dashboard_world)"
    by (simp add: cleanup_def unsubscribe_def issue_def dashboard_world_eval Let_def)
  have "dom (listeners (unsubscribe 1 (unsubscribe 0 dashboard_world))) = {0, 1} - {0} - {1}"
    by (simp add: unsubscribe_def dashboard_world_eval(5) del: dom_eq_empty_conv)
  then have "dom (listeners (cleanup dashboard_world)) = {}"
    unfolding e by (simp del: dom_eq_empty_conv)
  then show ?thesis
    by (simp add: logoutClick_keeps_listeners logoutClick_calls dashboard_world_eval)
qed

lemma entering_subscription:
  "subscribeToPosts (renderPosts example_platform) (Some (js ''All'')) 50 entering_world =
     (Inr 0, snd (subscribeToPosts (renderPosts example_platform) (Some (js ''All'')) 50 entering_world))"
  "listeners (snd (subscribeToPosts (renderPosts example_platform) (Some (js ''All'')) 50
                     entering_world)) 0 = listeners dashboard_world 0"
  by (simp_all add: subscribeToPosts_def onSnapshot_def entering_world_def initial_world_def
        initial_app_def dashboard_listeners Let_def)

lemma dashboard_selection: "selectedCategory (st dashboard_world) = js ''All''"
  by (auto simp: dashboard_world_def authStateChanged_def handleAuthStateChange_def
        renderDashboard_def initializeFeed_def subscribeToPosts_def subscribeToCategories_def
        onSnapshot_def updatePostLabel_def issue_def initial_world_def initial_app_def Let_def)

lemma dashboard_console: "console (st dashboard_world) = []"
  by (auto simp: dashboard_world_def authStateChanged_def handleAuthStateChange_def
        renderDashboard_def initializeFeed_def subscribeToPosts_def subscribeToCategories_def
        onSnapshot_def updatePostLabel_def issue_def initial_world_def initial_app_def Let_def)

lemma dashboard_container: "postsContainer (st dashboard_world) = postsContainerTemplate"
  by (auto simp: dashboard_world_def authStateChanged_def handleAuthStateChange_def
        renderDashboard_def initializeFeed_def subscribeToPosts_def subscribeToCategories_def
        onSnapshot_def updatePostLabel_def issue_def initial_world_def initial_app_def Let_def)

lemma news_world_eval:
  "st news_world =
     (st dashboard_world)\<lparr>categories := [news_category],
                            categoriesList := categoryHtml news_category\<rparr>"
  "listeners news_world = listeners dashboard_world"
  using dashboard_listeners(2)
  by (simp_all add: news_world_def snapshot_categories_def renderCategories_def
        updateCategorySelection_def dashboard_world_eval dashboard_selection)

lemma entering_categories_subscription:
  "subscribeToCategories
     (\<lambda>cs a. renderCategories example_platform (a\<lparr>categories := cs\<rparr>))
     ((snd (subscribeToPosts (renderPosts example_platform) (Some (js ''All'')) 50 entering_world))
        \<lparr>st := (st (snd (subscribeToPosts (renderPosts example_platform) (Some (js ''All'')) 50
                            entering_world)))\<lparr>postsUnsubscribe := Some 0\<rparr>\<rparr>) =
   (Inr 1, snd (subscribeToCategories
     (\<lambda>cs a. renderCategories example_platform (a\<lparr>categories := cs\<rparr>))
     ((snd (subscribeToPosts (renderPosts example_platform) (Some (js ''All'')) 50 entering_world))
        \<lparr>st := (st (snd (subscribeToPosts (renderPosts example_platform) (Some (js ''All'')) 50
                            entering_world)))\<lparr>postsUnsubscribe := Some 0\<rparr>\<rparr>)))"
  "listeners (snd (subscribeToCategories
     (\<lambda>cs a. renderCategories example_platform (a\<lparr>categories := cs\<rparr>))
     ((snd (subscribeToPosts (renderPosts example_platform) (Some (js ''All'')) 50 entering_world))
        \<lparr>st := (st (snd (subscribeToPosts (renderPosts example_platform) (Some (js ''All'')) 50
                            entering_world)))\<lparr>postsUnsubscribe := Some 0\<rparr>\<rparr>))) 1 =
   listeners news_world 1"
  using dashboard_listeners(2)
  by (simp_all add: subscribeToCategories_def subscribeToPosts_def onSnapshot_def
        entering_world_def initial_world_def initial_app_def issue_def news_world_eval Let_def)

text \<open>
  C8 at an example: the posts listener and the categories listener of the dashboard
  are the ones that \<open>initializeFeed\<close> registered. An error of the posts query replaces
  the loading text by the text for no posts; an error of the categories query, after
  one category had been shown, leaves the empty list; both are written to the console
  and neither handler throws.
\<close>

theorem subscription_error_calls_back_empty_witness:
  "fst (subscribeToPosts (renderPosts example_platform) (Some (js ''All'')) 50 entering_world) = Inr 0
   \<and> listeners dashboard_world 0 =
       listeners (snd (subscribeToPosts (renderPosts example_platform) (Some (js ''All'')) 50
                         entering_world)) 0
   \<and> postsContainer (st dashboard_world) = postsContainerTemplate
   \<and> fst (query_error 0 (Error (js ''offline'') (Some (js ''unavailable''))) dashboard_world) = Inr ()
   \<and> postsContainer (st (snd (query_error 0 (Error (js ''offline'') (Some (js ''unavailable'')))
                                 dashboard_world))) = noPostsHtml
   \<and> console (st (snd (query_error 0 (Error (js ''offline'') (Some (js ''unavailable'')))
                          dashboard_world))) =
       [(js ''Error listening to posts:'', Error (js ''offline'') (Some (js ''unavailable'')))]
   \<and> fst (subscribeToCategories
            (\<lambda>cs a. renderCategories example_platform (a\<lparr>categories := cs\<rparr>))
            ((snd (subscribeToPosts (renderPosts example_platform) (Some (js ''All'')) 50
                     entering_world))
               \<lparr>st := (st (snd (subscribeToPosts (renderPosts example_platform) (Some (js ''All''))
                                   50 entering_world)))\<lparr>postsUnsubscribe := Some 0\<rparr>\<rparr>)) = Inr 1
   \<and> categories (st news_world) = [news_category]
   \<and> categoriesList (st news_world) = categoryHtml news_category
   \<and> fst (query_error 1 (Error (js ''offline'') (Some (js ''unavailable''))) news_world) = Inr ()
   \<and> categories (st (snd (query_error 1 (Error (js ''offline'') (Some (js ''unavailable'')))
                             news_world))) = []
   \<and> categoriesList (st (snd (query_error 1 (Error (js ''offline'') (Some (js ''unavailable'')))
                                 news_world))) = []
   \<and> console (st (snd (query_error 1 (Error (js ''offline'') (Some (js ''unavailable'')))
                          news_world))) =
       [(js ''Error listening to categories:'', Error (js ''offline'') (Some (js ''unavailable'')))]"
proof -
  let ?E = "Error (js ''offline'') (Some (js ''unavailable''))"
  let ?P = "subscribeToPosts (renderPosts example_platform) (Some (js ''All'')) 50 entering_world"
  let ?cb = "\<lambda>cs a. renderCategories example_platform (a\<lparr>categories := cs\<rparr>)"
  let ?C = "subscribeToCategories ?cb ((snd ?P)\<lparr>st := (st (snd ?P))\<lparr>postsUnsubscribe := Some 0\<rparr>\<rparr>)"
  have p: "?P = (Inr 0, snd ?P)" and lp: "listeners dashboard_world 0 = listeners (snd ?P) 0"
    using entering_subscription by simp_all
  have c: "?C = (Inr 1, snd ?C)" and lc: "listeners news_world 1 = listeners (snd ?C) 1"
    using entering_categories_subscription by simp_all
  have a: "query_error 0 ?E dashboard_world =
        (fst (renderPosts example_platform []
                (console_error ''Error listening to posts:'' ?E (st dashboard_world))),
         dashboard_world\<lparr>st := snd (renderPosts example_platform []
                (console_error ''Error listening to posts:'' ?E (st dashboard_world)))\<rparr>)"
    using subscription_error_calls_back_empty
            [where callback = "renderPosts example_platform" and w = entering_world
               and category' = "Some (js ''All'')" and n = 50
               and h = 0 and w' = "snd ?P" and ?w2.0 = dashboard_world and error = ?E]
          p lp by blast
  have b: "query_error 1 ?E news_world =
        (fst (?cb [] (console_error ''Error listening to categories:'' ?E (st news_world))),
         news_world\<lparr>st := snd (?cb []
                (console_error ''Error listening to categories:'' ?E (st news_world)))\<rparr>)"
    using subscription_error_calls_back_empty
            [where callback' = ?cb
               and w = "(snd ?P)\<lparr>st := (st (snd ?P))\<lparr>postsUnsubscribe := Some 0\<rparr>\<rparr>"
               and h = 1 and w' = "snd ?C" and ?w2.0 = news_world and error = ?E]
          c lc by blast
  have a1: "fst (query_error 0 ?E dashboard_world) = Inr ()"
    and a2: "postsContainer (st (snd (query_error 0 ?E dashboard_world))) = noPostsHtml"
    and a3: "console (st (snd (query_error 0 ?E dashboard_world))) =
               [(js ''Error listening to posts:'', ?E)]"
    unfolding a
    by (simp_all add: renderPosts_def console_error_def dashboard_world_eval dashboard_console)
  have b1: "fst (query_error 1 ?E news_world) = Inr ()"
    and b2: "categories (st (snd (query_error 1 ?E news_world))) = []"
    and b3: "categoriesList (st (snd (query_error 1 ?E news_world))) = []"
    and b4: "console (st (snd (query_error 1 ?E news_world))) =
               [(js ''Error listening to categories:'', ?E)]"
    unfolding b
    by (simp_all add: renderCategories_def updateCategorySelection_def console_error_def
          news_world_eval dashboard_world_eval dashboard_selection dashboard_console)
  have p1: "fst ?P = Inr 0" using p by (metis fst_conv)
  have c1: "fst ?C = Inr 1" using c by (metis fst_conv)
  have t: "postsContainer (st dashboard_world) = postsContainerTemplate"
    by (rule dashboard_container)
  have n: "categories (st news_world) = [news_category]"
          "categoriesList (st news_world) = categoryHtml news_category"
    by (simp_all add: news_world_eval)
  show ?thesis
    using p1 lp t a1 a2 a3 c1 n b1 b2 b3 b4 by blast
qed

subsection \<open>What the renderer escapes\<close>

lemma sublist_concat_map: "x \<in> set xs \<Longrightarrow> sublist (f x) (concat (map f xs))"
proof -
  assume "x \<in> set xs"
  then obtain as bs where "xs = as @ x # bs" by (auto dest: split_list)
  then have "concat (map f xs) = concat (map f as) @ f x @ concat (map f bs)" by simp
  then show ?thesis by (metis sublist_appendI)
qed

lemma postHtml_category:
  "category p \<noteq> [] \<Longrightarrow> sublist (category p) (postHtml env p)"
  unfolding postHtml_def Let_def
  by (simp only: if_False) (rule sublist_appendI)

lemma categoryHtml_name: "sublist (name c) (categoryHtml c)"
  unfolding categoryHtml_def by (rule sublist_appendI)

lemma renderPosts_category:
  assumes "page a = DashboardPage" "p \<in> set posts" "category p \<noteq> []"
  shows "sublist (category p) (postsContainer (snd (renderPosts env posts a)))"
proof -
  have "posts \<noteq> []" using assms(2) by auto
  then have "postsContainer (snd (renderPosts env posts a)) = concat (map (postHtml env) posts)"
    using assms(1) by (simp add: renderPosts_def)
  moreover have "sublist (postHtml env p) (concat (map (postHtml env) posts))"
    using assms(2) by (rule sublist_concat_map)
  ultimately show ?thesis
    using postHtml_category [OF assms(3), of env] sublist_order.order_trans by metis
qed

lemma renderCategories_name:
  assumes "page a = DashboardPage" "c \<in> set (categories a)"
  shows "sublist (name c) (categoriesList (snd (renderCategories env a)))"
proof -
  have "categoriesList (snd (renderCategories env a)) = concat (map categoryHtml (categories a))"
    using assms(1) by (simp add: renderCategories_def)
  moreover have "sublist (categoryHtml c) (concat (map categoryHtml (categories a)))"
    using assms(2) by (rule sublist_concat_map)
  ultimately show ?thesis
    using categoryHtml_name [of c] sublist_order.order_trans by metis
qed

lemma escapeHtml_no_angle: "0x3C \<notin> set (escapeHtml t) \<and> 0x3E \<notin> set (escapeHtml t)"
  by (induction t) (auto simp: escapeHtml_def escapeChar_def js_def)

text \<open>
  C1. The claim asks that every user-supplied string be escaped before it is put into
  the page. The code escapes the content of a post only: a category name that is
  markup appears unchanged in the rendered list of posts and in the rendered list of
  categories, while \<open>escapeHtml\<close> of the same string does not contain it. Such a name
  is one that \<open>createCategory\<close> accepts and stores as it is.
\<close>

theorem category_names_inserted_unescaped:
  "sublist markup (postsContainer (st (snd (snapshot_posts 0 [markup_post] dashboard_world))))
   \<and> sublist markup
        (categoriesList (st (snd (snapshot_categories 1 [markup_category] dashboard_world))))
   \<and> \<not> sublist markup (escapeHtml markup)
   \<and> calls (snd (createCategory (Inr (js ''c1'')) markup alice_app)) =
       [AddDoc_categories \<lparr> name = markup, createdBy = js ''u1'',
                            category_createdAt = ServerTimestamp \<rparr>]"
proof -
  have m: "markup \<noteq> []" "0x3C \<in> set markup"
    by (simp_all add: markup_def js_def)
  have t: "trim markup = markup"
    by (rule trim_id) (simp_all add: markup_def js_def isWhiteSpace_def)
  have d: "calls (snd (createCategory (Inr (js ''c1'')) markup alice_app)) =
       [AddDoc_categories \<lparr> name = markup, createdBy = js ''u1'',
                            category_createdAt = ServerTimestamp \<rparr>]"
    using m(1)
    by (simp add: createCategory_def alice_app_def alice_def initial_app_def issue_def t Let_def)
  have "st (snd (snapshot_posts 0 [markup_post] dashboard_world)) =
          snd (renderPosts example_platform [markup_post] (st dashboard_world))"
    by (simp add: snapshot_posts_def dashboard_listeners split_beta)
  moreover have "sublist (category markup_post)
      (postsContainer (snd (renderPosts example_platform [markup_post] (st dashboard_world))))"
    by (rule renderPosts_category) (simp_all add: dashboard_world_eval markup_post_def m)
  ultimately have a: "sublist markup
      (postsContainer (st (snd (snapshot_posts 0 [markup_post] dashboard_world))))"
    by (simp add: markup_post_def)
  have "st (snd (snapshot_categories 1 [markup_category] dashboard_world)) =
          snd (renderCategories example_platform
                 ((st dashboard_world)\<lparr>categories := [markup_category]\<rparr>))"
    using dashboard_listeners(2) by (simp add: snapshot_categories_def split_beta)
  moreover have "sublist (name markup_category)
      (categoriesList (snd (renderCategories example_platform
                              ((st dashboard_world)\<lparr>categories := [markup_category]\<rparr>))))"
    by (rule renderCategories_name) (simp_all add: dashboard_world_eval)
  ultimately have b: "sublist markup
      (categoriesList (st (snd (snapshot_categories 1 [markup_category] dashboard_world))))"
    by (simp add: markup_category_def)
  have c: "\<not> sublist markup (escapeHtml markup)"
  proof
    assume "sublist markup (escapeHtml markup)"
    then have "set markup \<subseteq> set (escapeHtml markup)"
      by (rule set_mono_sublist)
    then show False
      using m(2) escapeHtml_no_angle [of markup] by blast
  qed
  show ?thesis using a b c d by simp
qed

end
